theory Spec2Isabelle
  imports Complex_Main "HOL-Library.Word"
begin

text \<open>
  The service layer of the bookstore: the author service and the book service over their
  repositories, with the document store as two lists of documents.  Each operation is a
  function of the database that returns its result and, when it writes, the database
  afterwards.
\<close>

section \<open>Strings\<close>

text \<open>
  A JavaScript string is modelled as a \<open>string\<close> whose characters are the code points
  U+0000 .. U+00FF (one UTF-16 code unit each).  On that range \<open>String.prototype.toLowerCase\<close>
  works character by character: it maps A..Z and the Latin-1 capitals U+00C0 .. U+00DE
  (except the multiplication sign U+00D7) 32 positions up and leaves every other character.
\<close>

definition toLowerChar :: "char \<Rightarrow> char" where
  "toLowerChar c =
     (let n = (of_char c :: nat) in
      if (65 \<le> n \<and> n \<le> 90) \<or> (192 \<le> n \<and> n \<le> 222 \<and> n \<noteq> 215)
      then char_of (n + 32) else c)"

definition toLowerCase :: "string \<Rightarrow> string" where
  "toLowerCase s = map toLowerChar s"

text \<open>\<open>startsWith s q\<close>: the string \<open>s\<close> begins with \<open>q\<close>.\<close>

fun startsWith :: "string \<Rightarrow> string \<Rightarrow> bool" where
  "startsWith s [] = True"
| "startsWith [] (c # q) = False"
| "startsWith (x # s) (c # q) = (x = c \<and> startsWith s q)"

text \<open>
  \<open>str_includes s q\<close> is \<open>s.includes(q)\<close>: \<open>q\<close> occurs in \<open>s\<close> at some position
  (\<open>includes\<close> alone is a reserved word here).
\<close>

fun str_includes :: "string \<Rightarrow> string \<Rightarrow> bool" where
  "str_includes [] q = (q = [])"
| "str_includes (x # s) q = (startsWith (x # s) q \<or> str_includes s q)"

text \<open>A string used as a condition is true unless it is empty.\<close>

definition truthy :: "string \<Rightarrow> bool" where
  "truthy s = (s \<noteq> [])"

section \<open>Numbers\<close>

text \<open>
  A JavaScript number is a binary64 floating-point value: \<open>NaN\<close>, one of the two
  infinities, or a finite value, given here by the real number it stands for (the two
  zeros are not told apart).  \<open>binary64 x\<close> is the number nearest to the real \<open>x\<close>, ties
  going to the even significand: with \<open>e\<close> the binary exponent of \<open>x\<close> (at least \<open>-1022\<close>),
  \<open>x\<close> is rounded to a multiple of \<open>2 ^ (e - 52)\<close>, and a result of magnitude
  \<open>2 ^ 1024\<close> is an infinity.  \<open>Finite x\<close> is meant for the reals \<open>x\<close> that are such
  values, \<open>binary64 x = Finite x\<close>; the integers of magnitude up to \<open>2 ^ 53\<close> are.
\<close>

datatype number = NaN | Infinity | NegInfinity | Finite real

definition roundHalfEven :: "real \<Rightarrow> int" where
  "roundHalfEven y =
     (let f = \<lfloor>y\<rfloor>; d = y - of_int f in
      if d < 1 / 2 then f
      else if 1 / 2 < d then f + 1
      else if even f then f else f + 1)"

definition binary64 :: "real \<Rightarrow> number" where
  "binary64 x =
     (if x = 0 then Finite 0
      else
        let e = max \<lfloor>log 2 \<bar>x\<bar>\<rfloor> (- 1022);
            q = 2 powi (e - 52);
            r = of_int (roundHalfEven (\<bar>x\<bar> / q)) * q
        in if 2 ^ 1024 \<le> r then (if x < 0 then NegInfinity else Infinity)
           else Finite (if x < 0 then - r else r))"

text \<open>\<open>a + b\<close>, \<open>a < b\<close> and \<open>a <= b\<close> on numbers.\<close>

fun number_add :: "number \<Rightarrow> number \<Rightarrow> number" where
  "number_add NaN b = NaN"
| "number_add a NaN = NaN"
| "number_add Infinity NegInfinity = NaN"
| "number_add NegInfinity Infinity = NaN"
| "number_add Infinity b = Infinity"
| "number_add a Infinity = Infinity"
| "number_add NegInfinity b = NegInfinity"
| "number_add a NegInfinity = NegInfinity"
| "number_add (Finite x) (Finite y) = binary64 (x + y)"

fun number_less :: "number \<Rightarrow> number \<Rightarrow> bool" where
  "number_less NaN b = False"
| "number_less a NaN = False"
| "number_less (Finite x) (Finite y) = (x < y)"
| "number_less a NegInfinity = False"
| "number_less NegInfinity b = True"
| "number_less Infinity b = False"
| "number_less a Infinity = True"

fun number_less_eq :: "number \<Rightarrow> number \<Rightarrow> bool" where
  "number_less_eq NaN b = False"
| "number_less_eq a NaN = False"
| "number_less_eq (Finite x) (Finite y) = (x \<le> y)"
| "number_less_eq NegInfinity b = True"
| "number_less_eq a NegInfinity = False"
| "number_less_eq a Infinity = True"
| "number_less_eq Infinity b = False"

instantiation number :: "{zero, plus, ord}"
begin

definition zero_number :: number where
  "zero_number = Finite 0"

definition plus_number :: "number \<Rightarrow> number \<Rightarrow> number" where
  "plus_number a b = number_add a b"

definition less_number :: "number \<Rightarrow> number \<Rightarrow> bool" where
  "less_number a b = number_less a b"

definition less_eq_number :: "number \<Rightarrow> number \<Rightarrow> bool" where
  "less_eq_number a b = number_less_eq a b"

instance ..

end

section \<open>Object identifiers\<close>

text \<open>
  The store identifies a document by an \<open>ObjectId\<close>, twelve bytes.  \<open>new ObjectId(s)\<close>
  accepts a string of 24 hexadecimal digits (either case) and throws on any other string;
  \<open>toString\<close> prints the twelve bytes as 24 lower-case hexadecimal digits.
\<close>

type_synonym ObjectId = "96 word"

definition isHex :: "char \<Rightarrow> bool" where
  "isHex c =
     (let n = (of_char c :: nat) in
      (48 \<le> n \<and> n \<le> 57) \<or> (97 \<le> n \<and> n \<le> 102) \<or> (65 \<le> n \<and> n \<le> 70))"

definition hexValue :: "char \<Rightarrow> nat" where
  "hexValue c =
     (let n = (of_char c :: nat) in
      if 48 \<le> n \<and> n \<le> 57 then n - 48
      else if 97 \<le> n \<and> n \<le> 102 then n - 87
      else n - 55)"

definition ObjectId_new :: "string \<Rightarrow> ObjectId option" where
  "ObjectId_new s =
     (if length s = 24 \<and> list_all isHex s
      then Some (word_of_nat (foldl (\<lambda>acc c. 16 * acc + hexValue c) 0 s))
      else None)"

definition ObjectId_toString :: "ObjectId \<Rightarrow> string" where
  "ObjectId_toString w =
     map (\<lambda>i. ''0123456789abcdef'' ! ((unat w div 16 ^ (23 - i)) mod 16)) [0..<24]"

section \<open>Effects\<close>

text \<open>
  An effect either succeeds with a value, fails with \<open>Effect.fail(new Error(message))\<close>, or
  dies with a defect: an exception thrown inside \<open>Effect.promise\<close>.  The store itself is
  taken to answer every well-formed request (no connection loss).
\<close>

datatype defect = BSONError | SyntaxError | MongoServerError

datatype cause = Fail string | Die defect

type_synonym 'a Exit = "cause + 'a"

section \<open>Data model\<close>

type_synonym Date = int
type_synonym AuthorId = string
type_synonym BookId = string

record SocialLinks =
  twitter :: "string option"
  facebook :: "string option"
  instagram :: "string option"
  linkedin :: "string option"

record CreateAuthorRequest =
  firstName :: string
  lastName :: string
  fullName :: string
  biography :: "string option"
  birthDate :: "Date option"
  nationality :: "string option"
  website :: "string option"
  socialLinks :: "SocialLinks option"
  profileImageUrl :: "string option"

text \<open>
  A stored author is the request spread into a document with its identifier and the two
  timestamps.  The identifier is an \<open>ObjectId\<close> in the collection and its string form in
  the \<open>Author\<close> objects the repository hands out.
\<close>

record 'i AuthorRec = CreateAuthorRequest +
  author_id :: 'i
  author_createdAt :: Date
  author_updatedAt :: Date

type_synonym AuthorDoc = "ObjectId AuthorRec"
type_synonym Author = "AuthorId AuthorRec"

text \<open>
  Every field of an update request is optional; the fields carry the prefix \<open>upd_\<close> to
  keep them apart from the fields of the same name of the create request.
\<close>

record UpdateBookRequest =
  upd_title :: "string option"
  upd_authorIds :: "AuthorId list option"
  upd_isbn :: "string option"
  upd_price :: "real option"
  upd_stock :: "number option"
  upd_genre :: "string option"
  upd_description :: "string option"
  upd_publishedDate :: "Date option"

text \<open>
  \<open>stock\<close> is a number, and so is the quantity that \<open>updateStock\<close> adds to it; nothing
  in the program checks that either is an integer.  \<open>price\<close>, with which the program does
  not compute, is the real number that the request denotes.
\<close>

record CreateBookRequest =
  title :: string
  authorIds :: "AuthorId list"
  isbn :: string
  price :: real
  stock :: number
  genre :: string
  description :: "string option"
  publishedDate :: "Date option"

record 'i BookRec = CreateBookRequest +
  book_id :: 'i
  book_createdAt :: Date
  book_updatedAt :: Date

type_synonym BookDoc = "ObjectId BookRec"
type_synonym Book = "BookId BookRec"

text \<open>The database: the collections \<open>authors\<close> and \<open>books\<close>, in insertion order.\<close>

record Database =
  authors :: "AuthorDoc list"
  books :: "BookDoc list"

text \<open>\<open>{ ...doc, _id: doc._id.toString() }\<close>\<close>

definition toAuthor :: "AuthorDoc \<Rightarrow> Author" where
  "toAuthor d =
     \<lparr> firstName = firstName d, lastName = lastName d, fullName = fullName d,
       biography = biography d, birthDate = birthDate d, nationality = nationality d,
       website = website d, socialLinks = socialLinks d,
       profileImageUrl = profileImageUrl d,
       author_id = ObjectId_toString (author_id d),
       author_createdAt = author_createdAt d, author_updatedAt = author_updatedAt d \<rparr>"

definition toBook :: "BookDoc \<Rightarrow> Book" where
  "toBook d =
     \<lparr> title = title d, authorIds = authorIds d, isbn = isbn d, price = price d,
       stock = stock d, genre = genre d, description = description d,
       publishedDate = publishedDate d,
       book_id = ObjectId_toString (book_id d),
       book_createdAt = book_createdAt d, book_updatedAt = book_updatedAt d \<rparr>"

section \<open>Repositories\<close>

text \<open>
  An identifier argument, \<open>id\<close> in the source, is called \<open>i\<close>.
  The identifier a new document receives and the current time are chosen outside the
  program; every operation that needs one takes it as an argument (\<open>oid\<close>, \<open>now\<close>).
  The collection rejects an insertion under an identifier that is already present.
\<close>

text \<open>\<open>ids.map(id => new ObjectId(id))\<close>: throws as soon as one string is rejected.\<close>

fun toObjectIds :: "string list \<Rightarrow> ObjectId list option" where
  "toObjectIds [] = Some []"
| "toObjectIds (i # ids) =
     (case ObjectId_new i of
        None \<Rightarrow> None
      | Some x \<Rightarrow> (case toObjectIds ids of None \<Rightarrow> None | Some xs \<Rightarrow> Some (x # xs)))"

text \<open>\<open>findOneAndUpdate\<close> and \<open>deleteOne\<close> act on the first document that matches.\<close>

fun updateFirst :: "('a \<Rightarrow> bool) \<Rightarrow> ('a \<Rightarrow> 'a) \<Rightarrow> 'a list \<Rightarrow> 'a list" where
  "updateFirst P f [] = []"
| "updateFirst P f (x # xs) = (if P x then f x # xs else x # updateFirst P f xs)"

fun deleteFirst :: "('a \<Rightarrow> bool) \<Rightarrow> 'a list \<Rightarrow> 'a list" where
  "deleteFirst P [] = []"
| "deleteFirst P (x # xs) = (if P x then xs else x # deleteFirst P xs)"

subsection \<open>Author repository\<close>

text \<open>
  \<open>new RegExp(name, "i")\<close> is a parameter of the model: \<open>rx name\<close> is \<open>None\<close> when the
  constructor throws a \<open>SyntaxError\<close>, and otherwise the test the store applies to a field
  (does the pattern match somewhere in the field, ignoring case).
\<close>

type_synonym RegExp = "string \<Rightarrow> bool"

definition AuthorRepository_findAll :: "Database \<Rightarrow> Author list" where
  "AuthorRepository_findAll db = map toAuthor (authors db)"

definition AuthorRepository_findById :: "Database \<Rightarrow> AuthorId \<Rightarrow> Author option Exit" where
  "AuthorRepository_findById db i =
     (case ObjectId_new i of
        None \<Rightarrow> Inl (Die BSONError)
      | Some x \<Rightarrow> Inr (map_option toAuthor (find (\<lambda>d. author_id d = x) (authors db))))"

definition AuthorRepository_findByIds :: "Database \<Rightarrow> AuthorId list \<Rightarrow> Author list Exit" where
  "AuthorRepository_findByIds db ids =
     (case toObjectIds ids of
        None \<Rightarrow> Inl (Die BSONError)
      | Some xs \<Rightarrow> Inr (map toAuthor (filter (\<lambda>d. author_id d \<in> set xs) (authors db))))"

definition AuthorRepository_create ::
  "Database \<Rightarrow> CreateAuthorRequest \<Rightarrow> ObjectId \<Rightarrow> Date \<Rightarrow> Author Exit \<times> Database" where
  "AuthorRepository_create db authorData oid now =
     (if list_ex (\<lambda>d. author_id d = oid) (authors db) then (Inl (Die MongoServerError), db)
      else
        let authorToInsert =
              \<lparr> firstName = firstName authorData, lastName = lastName authorData,
                fullName = fullName authorData, biography = biography authorData,
                birthDate = birthDate authorData, nationality = nationality authorData,
                website = website authorData, socialLinks = socialLinks authorData,
                profileImageUrl = profileImageUrl authorData,
                author_id = oid, author_createdAt = now, author_updatedAt = now \<rparr>;
            db' = db\<lparr>authors := authors db @ [authorToInsert]\<rparr>
        in (case find (\<lambda>d. author_id d = oid) (authors db') of
              None \<Rightarrow> (Inl (Fail ''Failed to create author''), db')
            | Some insertedAuthor \<Rightarrow> (Inr (toAuthor insertedAuthor), db')))"

definition AuthorRepository_findByName ::
  "(string \<Rightarrow> RegExp option) \<Rightarrow> Database \<Rightarrow> string \<Rightarrow> Author list Exit" where
  "AuthorRepository_findByName rx db name =
     (case rx name of
        None \<Rightarrow> Inl (Die SyntaxError)
      | Some r \<Rightarrow>
          Inr (map toAuthor
                 (filter (\<lambda>d. r (firstName d) \<or> r (lastName d) \<or> r (fullName d))
                    (authors db))))"

subsection \<open>Book repository\<close>

definition BookRepository_findAll :: "Database \<Rightarrow> Book list" where
  "BookRepository_findAll db = map toBook (books db)"

definition BookRepository_findById :: "Database \<Rightarrow> BookId \<Rightarrow> Book option Exit" where
  "BookRepository_findById db i =
     (case ObjectId_new i of
        None \<Rightarrow> Inl (Die BSONError)
      | Some x \<Rightarrow> Inr (map_option toBook (find (\<lambda>d. book_id d = x) (books db))))"

definition BookRepository_create ::
  "Database \<Rightarrow> CreateBookRequest \<Rightarrow> ObjectId \<Rightarrow> Date \<Rightarrow> Book Exit \<times> Database" where
  "BookRepository_create db bookData oid now =
     (if list_ex (\<lambda>d. book_id d = oid) (books db) then (Inl (Die MongoServerError), db)
      else
        let bookToInsert =
              \<lparr> title = title bookData, authorIds = authorIds bookData, isbn = isbn bookData,
                price = price bookData, stock = stock bookData, genre = genre bookData,
                description = description bookData, publishedDate = publishedDate bookData,
                book_id = oid, book_createdAt = now, book_updatedAt = now \<rparr>;
            db' = db\<lparr>books := books db @ [bookToInsert]\<rparr>
        in (case find (\<lambda>d. book_id d = oid) (books db') of
              None \<Rightarrow> (Inl (Fail ''Failed to create book''), db')
            | Some insertedBook \<Rightarrow> (Inr (toBook insertedBook), db')))"

text \<open>
  \<open>{ $set: { ...updateData, updatedAt: now } }\<close>: a field present in the request replaces
  the stored one, an absent field leaves it.
\<close>

definition setFields :: "UpdateBookRequest \<Rightarrow> Date \<Rightarrow> 'i BookRec \<Rightarrow> 'i BookRec" where
  "setFields updateData now d =
     d\<lparr> title := (case upd_title updateData of None \<Rightarrow> title d | Some v \<Rightarrow> v),
        authorIds := (case upd_authorIds updateData of None \<Rightarrow> authorIds d | Some v \<Rightarrow> v),
        isbn := (case upd_isbn updateData of None \<Rightarrow> isbn d | Some v \<Rightarrow> v),
        price := (case upd_price updateData of None \<Rightarrow> price d | Some v \<Rightarrow> v),
        stock := (case upd_stock updateData of None \<Rightarrow> stock d | Some v \<Rightarrow> v),
        genre := (case upd_genre updateData of None \<Rightarrow> genre d | Some v \<Rightarrow> v),
        description :=
          (case upd_description updateData of None \<Rightarrow> description d | Some v \<Rightarrow> Some v),
        publishedDate :=
          (case upd_publishedDate updateData of None \<Rightarrow> publishedDate d | Some v \<Rightarrow> Some v),
        book_updatedAt := now \<rparr>"

definition BookRepository_update ::
  "Database \<Rightarrow> BookId \<Rightarrow> UpdateBookRequest \<Rightarrow> Date \<Rightarrow> Book option Exit \<times> Database" where
  "BookRepository_update db i updateData now =
     (case ObjectId_new i of
        None \<Rightarrow> (Inl (Die BSONError), db)
      | Some x \<Rightarrow>
          (case find (\<lambda>d. book_id d = x) (books db) of
             None \<Rightarrow> (Inr None, db)
           | Some d \<Rightarrow>
               (Inr (Some (toBook (setFields updateData now d))),
                db\<lparr>books :=
                     updateFirst (\<lambda>d. book_id d = x) (setFields updateData now) (books db)\<rparr>)))"

definition BookRepository_delete :: "Database \<Rightarrow> BookId \<Rightarrow> bool Exit \<times> Database" where
  "BookRepository_delete db i =
     (case ObjectId_new i of
        None \<Rightarrow> (Inl (Die BSONError), db)
      | Some x \<Rightarrow>
          (Inr (list_ex (\<lambda>d. book_id d = x) (books db)),
           db\<lparr>books := deleteFirst (\<lambda>d. book_id d = x) (books db)\<rparr>))"

section \<open>Author service\<close>

definition getAuthorsByIds :: "Database \<Rightarrow> AuthorId list \<Rightarrow> Author list Exit" where
  "getAuthorsByIds db ids = AuthorRepository_findByIds db ids"

definition getAuthorsByName ::
  "(string \<Rightarrow> RegExp option) \<Rightarrow> Database \<Rightarrow> string \<Rightarrow> Author list Exit" where
  "getAuthorsByName rx db name = AuthorRepository_findByName rx db name"

definition validateAuthorExists :: "Database \<Rightarrow> AuthorId \<Rightarrow> bool Exit" where
  "validateAuthorExists db i =
     (case AuthorRepository_findById db i of
        Inl c \<Rightarrow> Inl c
      | Inr a \<Rightarrow> Inr (a \<noteq> None))"

definition createAuthor ::
  "(string \<Rightarrow> RegExp option) \<Rightarrow> Database \<Rightarrow> CreateAuthorRequest \<Rightarrow> ObjectId \<Rightarrow> Date
     \<Rightarrow> Author Exit \<times> Database" where
  "createAuthor rx db authorData oid now =
     (case AuthorRepository_findByName rx db (fullName authorData) of
        Inl c \<Rightarrow> (Inl c, db)
      | Inr existingAuthors \<Rightarrow>
          (case find (\<lambda>author. toLowerCase (fullName author) =
                                 toLowerCase (fullName authorData)) existingAuthors of
             Some duplicateAuthor \<Rightarrow>
               (Inl (Fail (''Author with name '' @ [CHR 0x22] @ fullName authorData @
                           [CHR 0x22] @ '' already exists'')), db)
           | None \<Rightarrow> AuthorRepository_create db authorData oid now))"

text \<open>
  The filter of \<open>searchAuthors\<close>.  \<open>author.biography && ...\<close> is false when the
  biography is absent and also when it is the empty string; likewise the nationality.
\<close>

definition searchAuthors_match :: "string \<Rightarrow> Author \<Rightarrow> bool" where
  "searchAuthors_match query author =
     (str_includes (toLowerCase (firstName author)) (toLowerCase query) \<or>
      str_includes (toLowerCase (lastName author)) (toLowerCase query) \<or>
      str_includes (toLowerCase (fullName author)) (toLowerCase query) \<or>
      (case biography author of
         None \<Rightarrow> False
       | Some b \<Rightarrow> truthy b \<and> str_includes (toLowerCase b) (toLowerCase query)) \<or>
      (case nationality author of
         None \<Rightarrow> False
       | Some n \<Rightarrow> truthy n \<and> str_includes (toLowerCase n) (toLowerCase query)))"

definition searchAuthors :: "Database \<Rightarrow> string \<Rightarrow> Author list" where
  "searchAuthors db query = filter (searchAuthors_match query) (AuthorRepository_findAll db)"

section \<open>Book service\<close>

definition getAllBooks :: "Database \<Rightarrow> Book list" where
  "getAllBooks db = BookRepository_findAll db"

definition getBookById :: "Database \<Rightarrow> BookId \<Rightarrow> Book option Exit" where
  "getBookById db i = BookRepository_findById db i"

text \<open>
  The loop \<open>for (const authorId of authorIds)\<close> of \<open>createBook\<close> and \<open>updateBook\<close>:
  the first identifier that \<open>validateAuthorExists\<close> does not accept ends it.
\<close>

fun validateAuthorIds :: "Database \<Rightarrow> AuthorId list \<Rightarrow> unit Exit" where
  "validateAuthorIds db [] = Inr ()"
| "validateAuthorIds db (authorId # rest) =
     (case validateAuthorExists db authorId of
        Inl c \<Rightarrow> Inl c
      | Inr authorExists \<Rightarrow>
          if \<not> authorExists
          then Inl (Fail (''Author with ID '' @ authorId @ '' does not exist''))
          else validateAuthorIds db rest)"

definition createBook ::
  "Database \<Rightarrow> CreateBookRequest \<Rightarrow> ObjectId \<Rightarrow> Date \<Rightarrow> Book Exit \<times> Database" where
  "createBook db bookData oid now =
     (case validateAuthorIds db (authorIds bookData) of
        Inl c \<Rightarrow> (Inl c, db)
      | Inr u \<Rightarrow>
          (case find (\<lambda>b. isbn b = isbn bookData) (BookRepository_findAll db) of
             Some existingBook \<Rightarrow>
               (Inl (Fail (''Book with ISBN '' @ isbn bookData @ '' already exists'')), db)
           | None \<Rightarrow> BookRepository_create db bookData oid now))"

definition updateBook ::
  "Database \<Rightarrow> BookId \<Rightarrow> UpdateBookRequest \<Rightarrow> Date \<Rightarrow> Book option Exit \<times> Database" where
  "updateBook db i updateData now =
     (case (case upd_authorIds updateData of
              None \<Rightarrow> Inr ()
            | Some ids \<Rightarrow> validateAuthorIds db ids) of
        Inl c \<Rightarrow> (Inl c, db)
      | Inr u \<Rightarrow> BookRepository_update db i updateData now)"

definition deleteBook :: "Database \<Rightarrow> BookId \<Rightarrow> bool Exit \<times> Database" where
  "deleteBook db i = BookRepository_delete db i"

definition titleOrGenreMatch :: "string \<Rightarrow> Book \<Rightarrow> bool" where
  "titleOrGenreMatch query book =
     (str_includes (toLowerCase (title book)) (toLowerCase query) \<or>
      str_includes (toLowerCase (genre book)) (toLowerCase query))"

definition authorMatch :: "string \<Rightarrow> Author list \<Rightarrow> bool" where
  "authorMatch query as =
     list_ex (\<lambda>author.
        str_includes (toLowerCase (firstName author)) (toLowerCase query) \<or>
        str_includes (toLowerCase (lastName author)) (toLowerCase query) \<or>
        str_includes (toLowerCase (fullName author)) (toLowerCase query)) as"

text \<open>
  The loop of \<open>searchBooks\<close> over the books, with \<open>filteredBooks\<close> as accumulator.
\<close>

fun searchBooks_loop :: "Database \<Rightarrow> string \<Rightarrow> Book list \<Rightarrow> Book list \<Rightarrow> Book list Exit" where
  "searchBooks_loop db query [] filteredBooks = Inr filteredBooks"
| "searchBooks_loop db query (book # rest) filteredBooks =
     (if titleOrGenreMatch query book
      then searchBooks_loop db query rest (filteredBooks @ [book])
      else
        (case getAuthorsByIds db (authorIds book) of
           Inl c \<Rightarrow> Inl c
         | Inr as \<Rightarrow>
             if authorMatch query as
             then searchBooks_loop db query rest (filteredBooks @ [book])
             else searchBooks_loop db query rest filteredBooks))"

definition searchBooks :: "Database \<Rightarrow> string \<Rightarrow> Book list Exit" where
  "searchBooks db query = searchBooks_loop db query (BookRepository_findAll db) []"

definition getBooksByGenre :: "Database \<Rightarrow> string \<Rightarrow> Book list" where
  "getBooksByGenre db g =
     filter (\<lambda>book. toLowerCase (genre book) = toLowerCase g) (BookRepository_findAll db)"

text \<open>In \<open>getBooksByAuthor\<close> the local list \<open>authorIds\<close> of the source is called \<open>ids\<close>.\<close>

definition getBooksByAuthor ::
  "(string \<Rightarrow> RegExp option) \<Rightarrow> Database \<Rightarrow> string \<Rightarrow> Book list Exit" where
  "getBooksByAuthor rx db authorName =
     (case getAuthorsByName rx db authorName of
        Inl c \<Rightarrow> Inl c
      | Inr matchingAuthors \<Rightarrow>
          let ids = filter truthy (map author_id matchingAuthors) in
          if length ids = 0 then Inr []
          else Inr (filter (\<lambda>book. list_ex (\<lambda>authorId. authorId \<in> set ids) (authorIds book))
                      (BookRepository_findAll db)))"

definition updateStock ::
  "Database \<Rightarrow> BookId \<Rightarrow> number \<Rightarrow> Date \<Rightarrow> Book option Exit \<times> Database" where
  "updateStock db i quantity now =
     (case BookRepository_findById db i of
        Inl c \<Rightarrow> (Inl c, db)
      | Inr None \<Rightarrow> (Inr None, db)
      | Inr (Some currentBook) \<Rightarrow>
          let newStock = stock currentBook + quantity in
          if newStock < 0 then (Inl (Fail ''Insufficient stock''), db)
          else BookRepository_update db i
                 \<lparr> upd_title = None, upd_authorIds = None, upd_isbn = None, upd_price = None,
                   upd_stock = Some newStock, upd_genre = None, upd_description = None,
                   upd_publishedDate = None \<rparr> now)"

section \<open>Notions of the specification\<close>

text \<open>
  The specification speaks of strings that are equal ignoring case and of a string that
  occurs in another ignoring case.  These two definitions follow its words, not the code:
  \<open>ci_equal s t\<close> compares the two strings character by character up to case, and
  \<open>ci_substring q s\<close> says that some stretch of \<open>s\<close> is \<open>q\<close> up to case.
\<close>

definition ci_equal :: "string \<Rightarrow> string \<Rightarrow> bool" where
  "ci_equal s t = list_all2 (\<lambda>x y. toLowerChar x = toLowerChar y) s t"

definition ci_substring :: "string \<Rightarrow> string \<Rightarrow> bool" where
  "ci_substring q s = (\<exists>pre mid post. s = pre @ mid @ post \<and> ci_equal mid q)"

section \<open>A fragment of regular expressions\<close>

text \<open>
  To run the operations that search authors by name on examples, the parameter \<open>rx\<close> is
  instantiated with \<open>RegExp_i\<close>.  It covers the patterns that are a sequence of ordinary
  characters, each optionally followed by one of the quantifiers \<open>*\<close>, \<open>+\<close>, \<open>?\<close> (and
  that by a \<open>?\<close>, which makes the quantifier lazy and does not change whether the pattern
  matches); the pattern matches a string when it matches somewhere in it, letters
  compared up to case.  A quantifier with nothing to repeat is a syntax error.  Patterns
  with the other syntax characters are outside the fragment (\<open>RegExp_i\<close> gives \<open>None\<close>
  for them) and no example uses one.
\<close>

datatype quantifier = Once | ZeroOrOne | ZeroOrMore | OneOrMore

definition syntaxCharacter :: "char \<Rightarrow> bool" where
  "syntaxCharacter c = (c \<in> set (''^$.*+?()[]{}|'' @ [CHR 0x5C]))"

definition quantifierOf :: "char \<Rightarrow> quantifier option" where
  "quantifierOf q =
     (if q = CHR ''*'' then Some ZeroOrMore
      else if q = CHR ''+'' then Some OneOrMore
      else if q = CHR ''?'' then Some ZeroOrOne
      else None)"

fun parsePattern :: "string \<Rightarrow> (char \<times> quantifier) list option" where
  "parsePattern [] = Some []"
| "parsePattern [c] = (if syntaxCharacter c then None else Some [(c, Once)])"
| "parsePattern [c, q] =
     (if syntaxCharacter c then None
      else (case quantifierOf q of
              Some n \<Rightarrow> Some [(c, n)]
            | None \<Rightarrow> map_option (Cons (c, Once)) (parsePattern [q])))"
| "parsePattern (c # q # l # cs) =
     (if syntaxCharacter c then None
      else (case quantifierOf q of
              Some n \<Rightarrow>
                if l = CHR ''?'' then map_option (Cons (c, n)) (parsePattern cs)
                else map_option (Cons (c, n)) (parsePattern (l # cs))
            | None \<Rightarrow> map_option (Cons (c, Once)) (parsePattern (q # l # cs))))"

fun matchHere :: "(char \<times> quantifier) list \<Rightarrow> string \<Rightarrow> bool" where
  "matchHere [] s = True"
| "matchHere ((c, Once) # ps) s =
     (case s of [] \<Rightarrow> False
      | x # xs \<Rightarrow> toLowerChar x = toLowerChar c \<and> matchHere ps xs)"
| "matchHere ((c, ZeroOrOne) # ps) s =
     (matchHere ps s \<or>
      (case s of [] \<Rightarrow> False
       | x # xs \<Rightarrow> toLowerChar x = toLowerChar c \<and> matchHere ps xs))"
| "matchHere ((c, ZeroOrMore) # ps) s =
     (matchHere ps s \<or>
      (case s of [] \<Rightarrow> False
       | x # xs \<Rightarrow> toLowerChar x = toLowerChar c \<and> matchHere ((c, ZeroOrMore) # ps) xs))"
| "matchHere ((c, OneOrMore) # ps) s =
     (case s of [] \<Rightarrow> False
      | x # xs \<Rightarrow> toLowerChar x = toLowerChar c \<and> matchHere ((c, ZeroOrMore) # ps) xs)"

fun matchSomewhere :: "(char \<times> quantifier) list \<Rightarrow> string \<Rightarrow> bool" where
  "matchSomewhere ps [] = matchHere ps []"
| "matchSomewhere ps (x # xs) = (matchHere ps (x # xs) \<or> matchSomewhere ps xs)"

definition RegExp_i :: "string \<Rightarrow> RegExp option" where
  "RegExp_i pattern = map_option matchSomewhere (parsePattern pattern)"

section \<open>Example data\<close>

text \<open>The author and the book of the scenario of the specification.\<close>

definition orwell :: AuthorDoc where
  "orwell =
     \<lparr> firstName = ''George'', lastName = ''Orwell'', fullName = ''George Orwell'',
       biography = None, birthDate = None, nationality = Some ''British'', website = None,
       socialLinks = None, profileImageUrl = None,
       author_id = 0x507f1f77bcf86cd799439011,
       author_createdAt = 1000, author_updatedAt = 1000 \<rparr>"

definition book1984 :: BookDoc where
  "book1984 =
     \<lparr> title = ''1984'', authorIds = [''507f1f77bcf86cd799439011''],
       isbn = ''978-0452284234'', price = 15.99, stock = Finite 50, genre = ''Dystopian Fiction'',
       description = None, publishedDate = None,
       book_id = 0x507f1f77bcf86cd799439012,
       book_createdAt = 2000, book_updatedAt = 2000 \<rparr>"

definition bookstore :: Database where
  "bookstore = \<lparr> authors = [orwell], books = [book1984] \<rparr>"

definition animalFarm :: BookDoc where
  "animalFarm =
     \<lparr> title = ''Animal Farm'', authorIds = [''507f1f77bcf86cd799439011''],
       isbn = ''978-0451526342'', price = 9.99, stock = Finite 30, genre = ''Satire'',
       description = None, publishedDate = None,
       book_id = 0x507f1f77bcf86cd799439013,
       book_createdAt = 2500, book_updatedAt = 2500 \<rparr>"

definition library :: Database where
  "library = \<lparr> authors = [orwell], books = [book1984, animalFarm] \<rparr>"

text \<open>Requests used in the examples.\<close>

definition newBook :: "string \<Rightarrow> AuthorId list \<Rightarrow> string \<Rightarrow> int \<Rightarrow> CreateBookRequest" where
  "newBook t ids n s =
     \<lparr> title = t, authorIds = ids, isbn = n, price = 12.5, stock = Finite (of_int s),
       genre = ''Fiction'',
       description = None, publishedDate = None \<rparr>"

definition noUpdate :: UpdateBookRequest where
  "noUpdate =
     \<lparr> upd_title = None, upd_authorIds = None, upd_isbn = None, upd_price = None,
       upd_stock = None, upd_genre = None, upd_description = None,
       upd_publishedDate = None \<rparr>"

definition aPlusTutor :: AuthorDoc where
  "aPlusTutor =
     \<lparr> firstName = ''A+'', lastName = ''Tutor'', fullName = ''A+ Tutor'',
       biography = None, birthDate = None, nationality = None, website = None,
       socialLinks = None, profileImageUrl = None,
       author_id = 0x507f1f77bcf86cd799439021,
       author_createdAt = 1500, author_updatedAt = 1500 \<rparr>"

definition tutors :: Database where
  "tutors = \<lparr> authors = [aPlusTutor], books = [] \<rparr>"

definition newAuthor :: "string \<Rightarrow> string \<Rightarrow> string \<Rightarrow> CreateAuthorRequest" where
  "newAuthor f l n =
     \<lparr> firstName = f, lastName = l, fullName = n, biography = None, birthDate = None,
       nationality = None, website = None, socialLinks = None, profileImageUrl = None \<rparr>"

section \<open>An invariant of the book collection\<close>

text \<open>
  Every author identifier of every stored book is well formed.  The book service keeps
  this: it stores author identifiers only after \<open>validateAuthorExists\<close> has accepted each
  of them.
\<close>

definition authorIdsWellFormed :: "Database \<Rightarrow> bool" where
  "authorIdsWellFormed db = list_all (\<lambda>d. toObjectIds (authorIds d) \<noteq> None) (books db)"

text \<open>A second author, with a book of his own, and a book with a very large stock.\<close>

definition huxley :: AuthorDoc where
  "huxley =
     \<lparr> firstName = ''Aldous'', lastName = ''Huxley'', fullName = ''Aldous Huxley'',
       biography = Some ''English writer and philosopher'', birthDate = None,
       nationality = None, website = None, socialLinks = None, profileImageUrl = None,
       author_id = 0x507f1f77bcf86cd799439031,
       author_createdAt = 1200, author_updatedAt = 1200 \<rparr>"

definition braveNewWorld :: BookDoc where
  "braveNewWorld =
     \<lparr> title = ''Brave New World'', authorIds = [''507F1F77BCF86CD799439031''],
       isbn = ''978-0060850524'', price = 14.5, stock = Finite 12, genre = ''Science Fiction'',
       description = None, publishedDate = None,
       book_id = 0x507f1f77bcf86cd799439032,
       book_createdAt = 2700, book_updatedAt = 2700 \<rparr>"

definition shelf :: Database where
  "shelf = \<lparr> authors = [orwell, huxley], books = [book1984, braveNewWorld, animalFarm] \<rparr>"

definition almanac :: BookDoc where
  "almanac =
     \<lparr> title = ''Almanac'', authorIds = [''507f1f77bcf86cd799439011''],
       isbn = ''978-0000000001'', price = 1, stock = Finite 9007199254740992,
       genre = ''Reference'', description = None, publishedDate = None,
       book_id = 0x507f1f77bcf86cd799439014,
       book_createdAt = 2800, book_updatedAt = 2800 \<rparr>"

definition depot :: Database where
  "depot = \<lparr> authors = [orwell], books = [almanac] \<rparr>"

section \<open>Lemmas about numbers\<close>

lemma not_less_zero_iff: "(z::number) \<noteq> NaN \<Longrightarrow> \<not> z < 0 \<longleftrightarrow> 0 \<le> z"
  by (cases z) (auto simp: less_number_def less_eq_number_def zero_number_def)

lemma less_zero_not_NaN: "(z::number) < 0 \<Longrightarrow> z \<noteq> NaN"
  by (auto simp: less_number_def)

lemma roundHalfEven_of_int: "roundHalfEven (of_int n) = n"
  by (simp add: roundHalfEven_def)

text \<open>An integer of magnitude at most \<open>2 ^ 53\<close> is a binary64 value.\<close>

lemma binary64_of_int:
  assumes "\<bar>k\<bar> \<le> 2 ^ 53"
  shows "binary64 (of_int k) = Finite (of_int k)"
proof (cases "k = 0")
  case True
  then show ?thesis by (simp add: binary64_def)
next
  case False
  define a :: real where "a = \<bar>of_int k\<bar>"
  define L where "L = \<lfloor>log 2 a\<rfloor>"
  have a1: "1 \<le> a" using False by (simp add: a_def)
  have a53: "a \<le> 2 ^ 53" using assms unfolding a_def
    by (metis of_int_abs of_int_le_iff of_int_numeral of_int_power)
  have L0: "0 \<le> L" using a1 by (simp add: L_def)
  have bounds: "2 powr L \<le> a \<and> a < 2 powr (L + 1)"
    using floor_log_eq_powr_iff[of a 2 L] a1 by (simp add: L_def)
  have L53: "L \<le> 53"
  proof (rule ccontr)
    assume "\<not> L \<le> 53"
    then have "54 \<le> L" by simp
    then have "(2::real) powr real_of_int 54 \<le> 2 powr real_of_int L"
      by (intro powr_mono) auto
    then have "(2::real) ^ 54 \<le> a" using bounds by simp
    then show False using a53 by simp
  qed
  obtain n where n: "L = int n" using L0 by (metis nonneg_int_cases)
  have n53: "n \<le> 53" using L53 n by simp
  have pn: "(2::real) ^ n \<le> a" using bounds n by (simp add: powr_realpow)
  have ai: "a = of_int \<bar>k\<bar>" by (simp add: a_def)
  have ex: "\<exists>m::int. a / (2 powi (L - 52)) = of_int m"
  proof (cases "n \<le> 52")
    case True
    then have "(2::real) powi (L - 52) = 1 / 2 ^ (52 - n)"
      using n by (simp add: power_int_def field_simps nat_diff_distrib')
    then have "a / (2 powi (L - 52)) = of_int (\<bar>k\<bar> * 2 ^ (52 - n))"
      by (simp add: ai)
    then show ?thesis by blast
  next
    case False
    then have n': "n = 53" using n53 by simp
    then have "a = 2 ^ 53" using pn a53 by simp
    moreover have "(2::real) powi (L - 52) = 2" using n n' by (simp add: power_int_def)
    ultimately have "a / (2 powi (L - 52)) = of_int (2 ^ 52)" by simp
    then show ?thesis by blast
  qed
  then obtain m :: int where m: "a / (2 powi (L - 52)) = of_int m" by blast
  have qpos: "(2::real) powi (L - 52) > 0" by (simp add: power_int_def)
  have r: "of_int (roundHalfEven (a / (2 powi (L - 52)))) * (2 powi (L - 52)) = a"
    using m qpos by (simp add: roundHalfEven_of_int field_simps)
  have e: "max L (- 1022) = L" using L0 by simp
  have big: "\<not> (2::real) ^ 1024 \<le> a" using a53 by (simp add: not_le)
  show ?thesis
  proof (cases "k < 0")
    case True
    then show ?thesis
      using False r e big unfolding binary64_def Let_def a_def L_def by simp
  next
    case nonneg: False
    then show ?thesis
      using False r e big unfolding binary64_def Let_def a_def L_def by simp
  qed
qed

text \<open>The sum of two integers is exact as long as its magnitude is at most \<open>2 ^ 53\<close>.\<close>

lemma add_of_int:
  "\<bar>m + n\<bar> \<le> 2 ^ 53 \<Longrightarrow> Finite (of_int m) + Finite (of_int n) = Finite (of_int (m + n))"
  using binary64_of_int[of "m + n"] by (simp add: plus_number_def)

text \<open>Beyond that it is not: \<open>2 ^ 53 + 1\<close> lies between two values and goes to the even one.\<close>

lemma floor_log2_53: "\<lfloor>log 2 9007199254740993\<rfloor> = 53"
proof -
  have "(2::real) powr 53 \<le> 9007199254740993 \<and> (9007199254740993::real) < 2 powr (53 + 1)"
    by simp
  then show ?thesis
    using floor_log_eq_powr_iff[of "9007199254740993::real" 2 53] by simp
qed

lemma add_2_53_1: "Finite 9007199254740992 + Finite 1 = Finite 9007199254740992"
  by (simp add: plus_number_def binary64_def floor_log2_53 Let_def power_int_def
      roundHalfEven_def)

lemma add_examples:
  "Finite 50 + Finite (- 60) = Finite (- 10)"
  "Finite 50 + Finite 10 = Finite 60"
  using add_of_int[of 50 "- 60"] add_of_int[of 50 10] by simp_all

section \<open>Lemmas about the repository\<close>

lemma find_Some_holds: "find P xs = Some d \<Longrightarrow> P d"
  by (induction xs) (auto split: if_splits)

lemma find_Some_mem: "find P xs = Some d \<Longrightarrow> d \<in> set xs"
  by (induction xs) (auto split: if_splits)

lemma find_updateFirst:
  "find P xs = Some d \<Longrightarrow> P (f d) \<Longrightarrow> find P (updateFirst P f xs) = Some (f d)"
  by (induction xs) (auto split: if_splits)

lemma book_id_setFields: "book_id (setFields p now d) = book_id d"
  by (simp add: setFields_def)

lemma toBook_setFields: "toBook (setFields p now d) = setFields p now (toBook d)"
  by (simp add: toBook_def setFields_def cong: option.case_cong)

lemma findById_SomeD:
  assumes "BookRepository_findById db i = Inr (Some b)"
  obtains x d where "ObjectId_new i = Some x"
    and "find (\<lambda>d. book_id d = x) (books db) = Some d" and "b = toBook d"
  using assms by (auto simp: BookRepository_findById_def split: option.splits)

text \<open>
  Updating a book that \<open>findById\<close> finds succeeds, returns the book with the fields of the
  request set, and a later \<open>findById\<close> returns that book.
\<close>

lemma update_found:
  assumes "BookRepository_findById db i = Inr (Some b)"
  shows "\<exists>db'. BookRepository_update db i p now = (Inr (Some (setFields p now b)), db')
           \<and> BookRepository_findById db' i = Inr (Some (setFields p now b))"
proof -
  from assms obtain x d where x: "ObjectId_new i = Some x"
    and d: "find (\<lambda>d. book_id d = x) (books db) = Some d" and b: "b = toBook d"
    by (rule findById_SomeD)
  have "book_id d = x" using find_Some_holds[OF d] .
  then have "find (\<lambda>d. book_id d = x)
               (updateFirst (\<lambda>d. book_id d = x) (setFields p now) (books db))
             = Some (setFields p now d)"
    using find_updateFirst[OF d, of "setFields p now"] by (simp add: book_id_setFields)
  then show ?thesis using x d b
    by (simp add: BookRepository_update_def BookRepository_findById_def toBook_setFields)
qed

section \<open>The example data, evaluated\<close>

lemma ObjectId_new_orwell:
  "ObjectId_new ''507f1f77bcf86cd799439011'' = Some 0x507f1f77bcf86cd799439011"
  by (simp add: ObjectId_new_def isHex_def hexValue_def)

lemma ObjectId_new_1984:
  "ObjectId_new ''507f1f77bcf86cd799439012'' = Some 0x507f1f77bcf86cd799439012"
  by (simp add: ObjectId_new_def isHex_def hexValue_def)

lemma ObjectId_toString_orwell:
  "ObjectId_toString 0x507f1f77bcf86cd799439011 = ''507f1f77bcf86cd799439011''"
  by (simp add: ObjectId_toString_def upt_conv_Cons)

lemma ObjectId_toString_1984:
  "ObjectId_toString 0x507f1f77bcf86cd799439012 = ''507f1f77bcf86cd799439012''"
  by (simp add: ObjectId_toString_def upt_conv_Cons)

lemma findById_1984:
  "BookRepository_findById bookstore ''507f1f77bcf86cd799439012'' = Inr (Some (toBook book1984))"
  by (simp add: BookRepository_findById_def ObjectId_new_1984 bookstore_def book1984_def)

lemma bookstore_sel: "authors bookstore = [orwell]" "books bookstore = [book1984]"
  by (simp_all add: bookstore_def)

lemma library_sel: "authors library = [orwell]" "books library = [book1984, animalFarm]"
  by (simp_all add: library_def)

lemma ObjectId_new_animalFarm:
  "ObjectId_new ''507f1f77bcf86cd799439013'' = Some 0x507f1f77bcf86cd799439013"
  by (simp add: ObjectId_new_def isHex_def hexValue_def)

lemma ObjectId_toString_animalFarm:
  "ObjectId_toString 0x507f1f77bcf86cd799439013 = ''507f1f77bcf86cd799439013''"
  by (simp add: ObjectId_toString_def upt_conv_Cons)

lemma toBook_book1984:
  "toBook book1984 =
     \<lparr> title = ''1984'', authorIds = [''507f1f77bcf86cd799439011''],
       isbn = ''978-0452284234'', price = 15.99, stock = Finite 50, genre = ''Dystopian Fiction'',
       description = None, publishedDate = None,
       book_id = ''507f1f77bcf86cd799439012'',
       book_createdAt = 2000, book_updatedAt = 2000 \<rparr>"
  by (simp add: toBook_def book1984_def ObjectId_toString_1984)

lemma toBook_animalFarm:
  "toBook animalFarm =
     \<lparr> title = ''Animal Farm'', authorIds = [''507f1f77bcf86cd799439011''],
       isbn = ''978-0451526342'', price = 9.99, stock = Finite 30, genre = ''Satire'',
       description = None, publishedDate = None,
       book_id = ''507f1f77bcf86cd799439013'',
       book_createdAt = 2500, book_updatedAt = 2500 \<rparr>"
  by (simp add: toBook_def animalFarm_def ObjectId_toString_animalFarm)

lemma toAuthor_orwell:
  "toAuthor orwell =
     \<lparr> firstName = ''George'', lastName = ''Orwell'', fullName = ''George Orwell'',
       biography = None, birthDate = None, nationality = Some ''British'', website = None,
       socialLinks = None, profileImageUrl = None,
       author_id = ''507f1f77bcf86cd799439011'',
       author_createdAt = 1000, author_updatedAt = 1000 \<rparr>"
  by (simp add: toAuthor_def orwell_def ObjectId_toString_orwell)

lemma validateAuthorExists_orwell:
  "validateAuthorExists bookstore ''507f1f77bcf86cd799439011'' = Inr True"
  "validateAuthorExists library ''507f1f77bcf86cd799439011'' = Inr True"
  by (simp_all add: validateAuthorExists_def AuthorRepository_findById_def ObjectId_new_orwell
      bookstore_sel library_sel orwell_def)

lemma shelf_sel:
  "authors shelf = [orwell, huxley]" "books shelf = [book1984, braveNewWorld, animalFarm]"
  by (simp_all add: shelf_def)

lemma depot_sel: "authors depot = [orwell]" "books depot = [almanac]"
  by (simp_all add: depot_def)

lemma ObjectId_new_huxley:
  "ObjectId_new ''507F1F77BCF86CD799439031'' = Some 0x507f1f77bcf86cd799439031"
  by (simp add: ObjectId_new_def isHex_def hexValue_def)

lemma ObjectId_toString_huxley:
  "ObjectId_toString 0x507f1f77bcf86cd799439031 = ''507f1f77bcf86cd799439031''"
  by (simp add: ObjectId_toString_def upt_conv_Cons)

lemma ObjectId_toString_braveNewWorld:
  "ObjectId_toString 0x507f1f77bcf86cd799439032 = ''507f1f77bcf86cd799439032''"
  by (simp add: ObjectId_toString_def upt_conv_Cons)

lemma ObjectId_new_almanac:
  "ObjectId_new ''507f1f77bcf86cd799439014'' = Some 0x507f1f77bcf86cd799439014"
  by (simp add: ObjectId_new_def isHex_def hexValue_def)

lemma ObjectId_toString_almanac:
  "ObjectId_toString 0x507f1f77bcf86cd799439014 = ''507f1f77bcf86cd799439014''"
  by (simp add: ObjectId_toString_def upt_conv_Cons)

lemma toAuthor_huxley:
  "toAuthor huxley =
     \<lparr> firstName = ''Aldous'', lastName = ''Huxley'', fullName = ''Aldous Huxley'',
       biography = Some ''English writer and philosopher'', birthDate = None,
       nationality = None, website = None, socialLinks = None, profileImageUrl = None,
       author_id = ''507f1f77bcf86cd799439031'',
       author_createdAt = 1200, author_updatedAt = 1200 \<rparr>"
  by (simp add: toAuthor_def huxley_def ObjectId_toString_huxley)

lemma toBook_braveNewWorld:
  "toBook braveNewWorld =
     \<lparr> title = ''Brave New World'', authorIds = [''507F1F77BCF86CD799439031''],
       isbn = ''978-0060850524'', price = 14.5, stock = Finite 12, genre = ''Science Fiction'',
       description = None, publishedDate = None,
       book_id = ''507f1f77bcf86cd799439032'',
       book_createdAt = 2700, book_updatedAt = 2700 \<rparr>"
  by (simp add: toBook_def braveNewWorld_def ObjectId_toString_braveNewWorld)

lemma toBook_almanac:
  "toBook almanac =
     \<lparr> title = ''Almanac'', authorIds = [''507f1f77bcf86cd799439011''],
       isbn = ''978-0000000001'', price = 1, stock = Finite 9007199254740992,
       genre = ''Reference'', description = None, publishedDate = None,
       book_id = ''507f1f77bcf86cd799439014'',
       book_createdAt = 2800, book_updatedAt = 2800 \<rparr>"
  by (simp add: toBook_def almanac_def ObjectId_toString_almanac)

lemma findById_almanac:
  "BookRepository_findById depot ''507f1f77bcf86cd799439014'' = Inr (Some (toBook almanac))"
  by (simp add: BookRepository_findById_def ObjectId_new_almanac depot_sel almanac_def)

section \<open>Stock updates\<close>

text \<open>
  Claim C1, as the code has it.  Take a book that \<open>findById\<close> finds under the identifier,
  with stock \<open>S\<close>, and a quantity such that the sum \<open>S + delta\<close> of the two numbers is not
  \<open>NaN\<close>.  \<open>updateStock\<close> succeeds with a book whose stock is that sum, which is then the
  book stored under the identifier, exactly when the sum is not negative; when it is
  negative the operation fails with the error "Insufficient stock" and the database is
  unchanged.  The sum is the sum of binary64 numbers: it is the sum of the integers when
  \<open>S\<close> and \<open>delta\<close> are integers and the magnitude of their sum is at most \<open>2 ^ 53\<close>.
\<close>

theorem updateStock_succeeds_iff:
  assumes "BookRepository_findById db i = Inr (Some b)"
    and "stock b + delta \<noteq> NaN"
  shows "((\<exists>b' db'. updateStock db i delta now = (Inr (Some b'), db')
              \<and> BookRepository_findById db' i = Inr (Some b')
              \<and> stock b' = stock b + delta) \<longleftrightarrow> 0 \<le> stock b + delta)
       \<and> (stock b + delta < 0 \<longrightarrow>
            updateStock db i delta now = (Inl (Fail ''Insufficient stock''), db))
       \<and> (\<forall>m n. stock b = Finite (of_int m) \<and> delta = Finite (of_int n) \<and> \<bar>m + n\<bar> \<le> 2 ^ 53
              \<longrightarrow> stock b + delta = Finite (of_int (m + n)))"
proof -
  have exact: "\<forall>m n. stock b = Finite (of_int m) \<and> delta = Finite (of_int n) \<and> \<bar>m + n\<bar> \<le> 2 ^ 53
              \<longrightarrow> stock b + delta = Finite (of_int (m + n))"
    by (auto simp: add_of_int)
  show ?thesis
  proof (cases "stock b + delta < 0")
    case True
    then have f: "updateStock db i delta now = (Inl (Fail ''Insufficient stock''), db)"
      using assms(1) by (simp add: updateStock_def)
    have "\<not> 0 \<le> stock b + delta"
      using True not_less_zero_iff[OF assms(2)] by blast
    with True f exact show ?thesis by simp
  next
    case False
    let ?p = "\<lparr> upd_title = None, upd_authorIds = None, upd_isbn = None, upd_price = None,
                upd_stock = Some (stock b + delta), upd_genre = None, upd_description = None,
                upd_publishedDate = None \<rparr>"
    from update_found[OF assms(1), of ?p now] obtain db' where
      u: "BookRepository_update db i ?p now = (Inr (Some (setFields ?p now b)), db')"
      and f: "BookRepository_findById db' i = Inr (Some (setFields ?p now b))" by blast
    have s: "stock (setFields ?p now b) = stock b + delta" by (simp add: setFields_def)
    have "updateStock db i delta now = (Inr (Some (setFields ?p now b)), db')"
      using assms(1) False u by (simp add: updateStock_def Let_def)
    with f s have "\<exists>b' db'. updateStock db i delta now = (Inr (Some b'), db')
              \<and> BookRepository_findById db' i = Inr (Some b')
              \<and> stock b' = stock b + delta" by blast
    moreover have "0 \<le> stock b + delta"
      using False not_less_zero_iff[OF assms(2)] by blast
    ultimately show ?thesis using False exact by blast
  qed
qed

theorem updateStock_succeeds_iff_witness:
  "BookRepository_findById bookstore ''507f1f77bcf86cd799439012'' = Inr (Some (toBook book1984))
   \<and> stock (toBook book1984) = Finite 50
   \<and> updateStock bookstore ''507f1f77bcf86cd799439012'' (Finite (- 60)) 3000
       = (Inl (Fail ''Insufficient stock''), bookstore)
   \<and> (\<exists>b' db'. updateStock bookstore ''507f1f77bcf86cd799439012'' (Finite 10) 3000
                  = (Inr (Some b'), db')
         \<and> BookRepository_findById db' ''507f1f77bcf86cd799439012'' = Inr (Some b')
         \<and> stock b' = Finite 60)"
proof -
  have s: "stock (toBook book1984) = Finite 50" by (simp add: toBook_book1984)
  have n1: "stock (toBook book1984) + Finite (- 60) \<noteq> NaN" by (simp add: s add_examples)
  have n2: "stock (toBook book1984) + Finite 10 \<noteq> NaN" by (simp add: s add_examples)
  have l: "Finite (- 10) < (0::number)" "(0::number) \<le> Finite 60"
    by (simp_all add: less_number_def less_eq_number_def zero_number_def)
  show ?thesis
    using updateStock_succeeds_iff[OF findById_1984 n1, of 3000]
      updateStock_succeeds_iff[OF findById_1984 n2, of 3000] findById_1984 s l
    by (simp add: add_examples)
qed

text \<open>
  The claim as stated fails where the sum of the two numbers is not the sum of the
  integers: with a stock of \<open>2 ^ 53\<close> and a quantity of \<open>1\<close>, \<open>updateStock\<close> succeeds and
  the stock stored is \<open>2 ^ 53\<close>, not \<open>2 ^ 53 + 1\<close>.
\<close>

theorem updateStock_rounds:
  "BookRepository_findById depot ''507f1f77bcf86cd799439014'' = Inr (Some (toBook almanac))
   \<and> stock (toBook almanac) = Finite 9007199254740992
   \<and> updateStock depot ''507f1f77bcf86cd799439014'' (Finite 1) 3000
       = (Inr (Some ((toBook almanac)\<lparr>stock := Finite 9007199254740992,
                                        book_updatedAt := 3000\<rparr>)),
          depot\<lparr>books := [almanac\<lparr>stock := Finite 9007199254740992,
                                    book_updatedAt := 3000\<rparr>]\<rparr>)
   \<and> Finite 9007199254740992 \<noteq> Finite (9007199254740992 + 1)"
proof -
  have s: "stock (toBook almanac) = Finite 9007199254740992" by (simp add: toBook_almanac)
  have z: "\<not> Finite 9007199254740992 < (0::number)"
    by (simp add: less_number_def zero_number_def)
  have u: "updateStock depot ''507f1f77bcf86cd799439014'' (Finite 1) 3000
       = (Inr (Some ((toBook almanac)\<lparr>stock := Finite 9007199254740992,
                                        book_updatedAt := 3000\<rparr>)),
          depot\<lparr>books := [almanac\<lparr>stock := Finite 9007199254740992,
                                    book_updatedAt := 3000\<rparr>]\<rparr>)"
    by (simp add: updateStock_def findById_almanac s add_2_53_1 z Let_def
          BookRepository_update_def ObjectId_new_almanac depot_sel toBook_setFields)
       (simp add: setFields_def almanac_def)
  from findById_almanac s u show ?thesis by simp
qed

text \<open>
  When the sum is \<open>NaN\<close>, as it is for the quantity \<open>NaN\<close>, the test \<open>newStock < 0\<close> is
  false and \<open>updateStock\<close> stores \<open>NaN\<close> as the stock.
\<close>

lemma updateStock_NaN:
  assumes "BookRepository_findById db i = Inr (Some b)"
  shows "\<exists>b' db'. updateStock db i NaN now = (Inr (Some b'), db')
           \<and> BookRepository_findById db' i = Inr (Some b') \<and> stock b' = NaN"
proof -
  let ?p = "\<lparr> upd_title = None, upd_authorIds = None, upd_isbn = None, upd_price = None,
              upd_stock = Some NaN, upd_genre = None, upd_description = None,
              upd_publishedDate = None \<rparr>"
  have n: "stock b + NaN = NaN" by (cases "stock b") (simp_all add: plus_number_def)
  from update_found[OF assms, of ?p now] obtain db' where
    u: "BookRepository_update db i ?p now = (Inr (Some (setFields ?p now b)), db')"
    and f: "BookRepository_findById db' i = Inr (Some (setFields ?p now b))" by blast
  have s: "stock (setFields ?p now b) = NaN" by (simp add: setFields_def)
  have "updateStock db i NaN now = (Inr (Some (setFields ?p now b)), db')"
    using assms u by (simp add: updateStock_def Let_def n less_number_def)
  with f s show ?thesis by blast
qed

section \<open>Stock is not checked when a book is created or replaced\<close>

text \<open>
  Claim C2.  The claim is that no operation produces a book with negative stock.  In the
  database of the scenario every stock is non-negative; \<open>createBook\<close> with a stock of
  \<open>-5\<close> succeeds and stores the book with that stock, and \<open>updateBook\<close> with a stock of
  \<open>-1\<close> succeeds and stores it too.  Only \<open>updateStock\<close> checks the sign.
\<close>

theorem createBook_updateBook_negative_stock:
  "list_all (\<lambda>b. 0 \<le> stock b) (getAllBooks bookstore)
   \<and> createBook bookstore
        (newBook ''Animal Farm'' [''507f1f77bcf86cd799439011''] ''978-0451526342'' (- 5))
        0x507f1f77bcf86cd799439013 3000
      = (Inr \<lparr> title = ''Animal Farm'', authorIds = [''507f1f77bcf86cd799439011''],
               isbn = ''978-0451526342'', price = 12.5, stock = Finite (- 5), genre = ''Fiction'',
               description = None, publishedDate = None,
               book_id = ''507f1f77bcf86cd799439013'',
               book_createdAt = 3000, book_updatedAt = 3000 \<rparr>,
         bookstore\<lparr>books :=
           [book1984,
            \<lparr> title = ''Animal Farm'', authorIds = [''507f1f77bcf86cd799439011''],
              isbn = ''978-0451526342'', price = 12.5, stock = Finite (- 5), genre = ''Fiction'',
              description = None, publishedDate = None,
              book_id = 0x507f1f77bcf86cd799439013,
              book_createdAt = 3000, book_updatedAt = 3000 \<rparr>]\<rparr>)
   \<and> updateBook bookstore ''507f1f77bcf86cd799439012'' (noUpdate\<lparr>upd_stock := Some (Finite (- 1))\<rparr>) 3000
      = (Inr (Some ((toBook book1984)\<lparr>stock := Finite (- 1), book_updatedAt := 3000\<rparr>)),
         bookstore\<lparr>books := [book1984\<lparr>stock := Finite (- 1), book_updatedAt := 3000\<rparr>]\<rparr>)
   \<and> Finite (- 5) < (0::number) \<and> Finite (- 1) < (0::number)"
proof -
  have d: "Finite (- 5) < (0::number) \<and> Finite (- 1) < (0::number)"
    by (simp add: less_number_def zero_number_def)
  have a: "list_all (\<lambda>b. 0 \<le> stock b) (getAllBooks bookstore)"
    by (simp add: getAllBooks_def BookRepository_findAll_def bookstore_sel toBook_book1984
        less_eq_number_def zero_number_def)
  have b: "createBook bookstore
        (newBook ''Animal Farm'' [''507f1f77bcf86cd799439011''] ''978-0451526342'' (- 5))
        0x507f1f77bcf86cd799439013 3000
      = (Inr \<lparr> title = ''Animal Farm'', authorIds = [''507f1f77bcf86cd799439011''],
               isbn = ''978-0451526342'', price = 12.5, stock = Finite (- 5), genre = ''Fiction'',
               description = None, publishedDate = None,
               book_id = ''507f1f77bcf86cd799439013'',
               book_createdAt = 3000, book_updatedAt = 3000 \<rparr>,
         bookstore\<lparr>books :=
           [book1984,
            \<lparr> title = ''Animal Farm'', authorIds = [''507f1f77bcf86cd799439011''],
              isbn = ''978-0451526342'', price = 12.5, stock = Finite (- 5), genre = ''Fiction'',
              description = None, publishedDate = None,
              book_id = 0x507f1f77bcf86cd799439013,
              book_createdAt = 3000, book_updatedAt = 3000 \<rparr>]\<rparr>)"
    by (simp add: createBook_def BookRepository_findAll_def newBook_def
          validateAuthorExists_orwell toBook_book1984 BookRepository_create_def Let_def
          bookstore_sel)
       (simp add: toBook_def ObjectId_toString_animalFarm book1984_def)
  have c: "updateBook bookstore ''507f1f77bcf86cd799439012'' (noUpdate\<lparr>upd_stock := Some (Finite (- 1))\<rparr>) 3000
      = (Inr (Some ((toBook book1984)\<lparr>stock := Finite (- 1), book_updatedAt := 3000\<rparr>)),
         bookstore\<lparr>books := [book1984\<lparr>stock := Finite (- 1), book_updatedAt := 3000\<rparr>]\<rparr>)"
    by (simp add: updateBook_def noUpdate_def BookRepository_update_def ObjectId_new_1984
          bookstore_sel toBook_setFields)
       (simp add: setFields_def book1984_def)
  from a b c d show ?thesis by simp
qed

section \<open>Creating a book\<close>

lemma validateAuthorExists_cases:
  "validateAuthorExists db i =
     (case ObjectId_new i of
        None \<Rightarrow> Inl (Die BSONError)
      | Some x \<Rightarrow> Inr (find (\<lambda>d. author_id d = x) (authors db) \<noteq> None))"
  by (simp add: validateAuthorExists_def AuthorRepository_findById_def split: option.splits)

lemma validateAuthorIds_all_exist:
  "list_all (\<lambda>a. validateAuthorExists db a = Inr True) ids \<Longrightarrow> validateAuthorIds db ids = Inr ()"
  by (induction ids) simp_all

lemma validateAuthorIds_skip_existing:
  "list_all (\<lambda>a. validateAuthorExists db a = Inr True) pre \<Longrightarrow>
   validateAuthorIds db (pre @ rest) = validateAuthorIds db rest"
  by (induction pre) simp_all

lemma validateAuthorIds_first_missing:
  assumes "validateAuthorExists db missing \<noteq> Inr True"
  shows "validateAuthorIds db (missing # post) =
           (if ObjectId_new missing = None then Inl (Die BSONError)
            else Inl (Fail (''Author with ID '' @ missing @ '' does not exist'')))"
  using assms by (auto simp: validateAuthorExists_cases split: option.splits)

text \<open>
  When the first author identifier of the request that does not exist is well formed,
  \<open>createBook\<close> fails with the error that names it, whatever identifiers follow, and
  the database is unchanged.
\<close>

lemma createBook_first_missing_author:
  assumes "authorIds bookData = pre @ missing # post"
    and "list_all (\<lambda>a. validateAuthorExists db a = Inr True) pre"
    and "validateAuthorExists db missing = Inr False"
  shows "createBook db bookData oid now =
           (Inl (Fail (''Author with ID '' @ missing @ '' does not exist'')), db)"
proof -
  have "validateAuthorIds db (authorIds bookData) = validateAuthorIds db (missing # post)"
    using assms(1,2) by (simp add: validateAuthorIds_skip_existing)
  then show ?thesis
    using assms(3) by (simp add: createBook_def)
qed

text \<open>Whatever the first missing identifier is, nothing is stored.\<close>

lemma createBook_missing_author_stores_nothing:
  assumes "authorIds bookData = pre @ missing # post"
    and "list_all (\<lambda>a. validateAuthorExists db a = Inr True) pre"
    and "validateAuthorExists db missing \<noteq> Inr True"
  shows "\<exists>c. createBook db bookData oid now = (Inl c, db)"
proof -
  have "validateAuthorIds db (authorIds bookData) = validateAuthorIds db (missing # post)"
    using assms(1,2) by (simp add: validateAuthorIds_skip_existing)
  then show ?thesis
    using validateAuthorIds_first_missing[OF assms(3), of post]
    by (simp add: createBook_def)
qed

lemma ObjectId_new_unknown:
  "ObjectId_new ''507f1f77bcf86cd7994390ff'' = Some 0x507f1f77bcf86cd7994390ff"
  by (simp add: ObjectId_new_def isHex_def hexValue_def)

lemma validateAuthorExists_unknown:
  "validateAuthorExists bookstore ''507f1f77bcf86cd7994390ff'' = Inr False"
  by (simp add: validateAuthorExists_cases ObjectId_new_unknown bookstore_sel orwell_def)

lemma createBook_first_missing_author_example:
  "createBook bookstore
     (newBook ''Homage'' [''507f1f77bcf86cd799439011'', ''507f1f77bcf86cd7994390ff'', ''abc'']
        ''978-0156421171'' 5)
     0x507f1f77bcf86cd799439013 3000
   = (Inl (Fail ''Author with ID 507f1f77bcf86cd7994390ff does not exist''), bookstore)"
proof -
  have 1: "authorIds (newBook ''Homage''
             [''507f1f77bcf86cd799439011'', ''507f1f77bcf86cd7994390ff'', ''abc'']
             ''978-0156421171'' 5)
           = [''507f1f77bcf86cd799439011''] @ ''507f1f77bcf86cd7994390ff'' # [''abc'']"
    by (simp add: newBook_def)
  have 2: "list_all (\<lambda>a. validateAuthorExists bookstore a = Inr True)
             [''507f1f77bcf86cd799439011'']"
    by (simp add: validateAuthorExists_orwell)
  show ?thesis
    using createBook_first_missing_author[OF 1 2 validateAuthorExists_unknown,
        of "0x507f1f77bcf86cd799439013" 3000]
    by simp
qed

text \<open>
  Claim C3.  The claim is that \<open>createBook\<close>, given a request with an author identifier
  to which no author corresponds, stores nothing and fails with the error that names the
  first such identifier.  No author corresponds to the identifier \<open>abc\<close>.  With it
  \<open>createBook\<close> stores nothing, but it does not fail with the error that names \<open>abc\<close>:
  \<open>new ObjectId\<close> throws inside \<open>findById\<close>, and the operation ends with that exception.
\<close>

theorem createBook_malformed_author_id:
  "validateAuthorExists bookstore ''abc'' \<noteq> Inr True
   \<and> createBook bookstore (newBook ''Homage'' [''abc''] ''978-0156421171'' 5)
        0x507f1f77bcf86cd799439013 3000
      \<noteq> (Inl (Fail ''Author with ID abc does not exist''), bookstore)
   \<and> createBook bookstore (newBook ''Homage'' [''abc''] ''978-0156421171'' 5)
        0x507f1f77bcf86cd799439013 3000
      = (Inl (Die BSONError), bookstore)"
  by (simp add: createBook_def newBook_def validateAuthorExists_cases ObjectId_new_def)

text \<open>
  Claim C4.  When every author identifier of the request exists and some stored book has
  exactly the ISBN of the request, \<open>createBook\<close> fails with the error
  "Book with ISBN ... already exists" and the database is unchanged; no other field of the
  request matters.
\<close>

theorem createBook_duplicate_isbn:
  assumes "list_all (\<lambda>a. validateAuthorExists db a = Inr True) (authorIds bookData)"
    and "b \<in> set (getAllBooks db)"
    and "isbn b = isbn bookData"
  shows "createBook db bookData oid now =
           (Inl (Fail (''Book with ISBN '' @ isbn bookData @ '' already exists'')), db)"
proof -
  have "find (\<lambda>b. isbn b = isbn bookData) (BookRepository_findAll db) \<noteq> None"
    using assms(2,3) by (auto simp: find_None_iff getAllBooks_def)
  then obtain e where "find (\<lambda>b. isbn b = isbn bookData) (BookRepository_findAll db) = Some e"
    by blast
  then show ?thesis
    using validateAuthorIds_all_exist[OF assms(1)] by (simp add: createBook_def)
qed

theorem createBook_duplicate_isbn_witness:
  "toBook book1984 \<in> set (getAllBooks bookstore)
   \<and> isbn (toBook book1984) = ''978-0452284234''
   \<and> createBook bookstore
        (newBook ''Nineteen Eighty-Four'' [''507f1f77bcf86cd799439011''] ''978-0452284234'' 7)
        0x507f1f77bcf86cd799439013 3000
      = (Inl (Fail ''Book with ISBN 978-0452284234 already exists''), bookstore)"
proof -
  have 1: "list_all (\<lambda>a. validateAuthorExists bookstore a = Inr True)
             (authorIds (newBook ''Nineteen Eighty-Four'' [''507f1f77bcf86cd799439011'']
                ''978-0452284234'' 7))"
    by (simp add: newBook_def validateAuthorExists_orwell)
  have 2: "toBook book1984 \<in> set (getAllBooks bookstore)"
    by (simp add: getAllBooks_def BookRepository_findAll_def bookstore_sel)
  have 3: "isbn (toBook book1984)
           = isbn (newBook ''Nineteen Eighty-Four'' [''507f1f77bcf86cd799439011'']
                ''978-0452284234'' 7)"
    by (simp add: newBook_def toBook_book1984)
  show ?thesis
    using createBook_duplicate_isbn[OF 1 2 3, of "0x507f1f77bcf86cd799439013" 3000] 2
    by (simp add: newBook_def toBook_book1984)
qed

section \<open>Replacing fields of a book\<close>

lemma updateFirst_keeps_others:
  "d \<in> set xs \<Longrightarrow> \<not> P d \<Longrightarrow> d \<in> set (updateFirst P f xs)"
  by (induction xs) auto

text \<open>
  Claim C10.  For a book that \<open>findById\<close> finds and a request whose author identifiers,
  when present, all exist, \<open>updateBook\<close> succeeds: it returns the book with the fields of
  the request set, and that is the book then stored under the identifier.  Nothing
  compares the new ISBN with the other books: when the request carries the ISBN of
  another stored book, both books are in the collection afterwards, with the same ISBN.
\<close>

theorem updateBook_no_isbn_check:
  assumes "BookRepository_findById db i = Inr (Some b)"
    and "case upd_authorIds updateData of
           None \<Rightarrow> True
         | Some ids \<Rightarrow> list_all (\<lambda>a. validateAuthorExists db a = Inr True) ids"
  shows "\<exists>db'. updateBook db i updateData now = (Inr (Some (setFields updateData now b)), db')
           \<and> BookRepository_findById db' i = Inr (Some (setFields updateData now b))
           \<and> setFields updateData now b \<in> set (getAllBooks db')
           \<and> (\<forall>other. other \<in> set (getAllBooks db) \<and> book_id other \<noteq> book_id b
                  \<and> upd_isbn updateData = Some (isbn other)
                \<longrightarrow> other \<in> set (getAllBooks db')
                    \<and> isbn (setFields updateData now b) = isbn other)"
proof -
  from assms(1) obtain x d where x: "ObjectId_new i = Some x"
    and d: "find (\<lambda>d. book_id d = x) (books db) = Some d" and b: "b = toBook d"
    by (rule findById_SomeD)
  let ?db' = "db\<lparr>books := updateFirst (\<lambda>d. book_id d = x) (setFields updateData now) (books db)\<rparr>"
  have dx: "book_id d = x" using find_Some_holds[OF d] .
  have v: "(case upd_authorIds updateData of None \<Rightarrow> Inr () | Some ids \<Rightarrow> validateAuthorIds db ids)
           = Inr ()"
    using assms(2) by (simp add: validateAuthorIds_all_exist split: option.splits)
  have u: "updateBook db i updateData now = (Inr (Some (setFields updateData now b)), ?db')"
    using x d b v by (simp add: updateBook_def BookRepository_update_def toBook_setFields)
  have f: "find (\<lambda>d. book_id d = x) (books ?db') = Some (setFields updateData now d)"
    using find_updateFirst[OF d, of "setFields updateData now"] dx
    by (simp add: book_id_setFields)
  have g: "BookRepository_findById ?db' i = Inr (Some (setFields updateData now b))"
    using x f b by (simp add: BookRepository_findById_def toBook_setFields)
  have m: "setFields updateData now b \<in> set (getAllBooks ?db')"
    using find_Some_mem[OF f] b
    by (auto simp: getAllBooks_def BookRepository_findAll_def toBook_setFields[symmetric])
  have o: "other \<in> set (getAllBooks ?db') \<and> isbn (setFields updateData now b) = isbn other"
    if h: "other \<in> set (getAllBooks db) \<and> book_id other \<noteq> book_id b
           \<and> upd_isbn updateData = Some (isbn other)" for other
  proof -
    from h obtain e where e: "e \<in> set (books db)" and oe: "other = toBook e"
      by (auto simp: getAllBooks_def BookRepository_findAll_def)
    have "book_id e \<noteq> x"
      using h oe b dx by (auto simp: toBook_def)
    then have "e \<in> set (books ?db')"
      using updateFirst_keeps_others[OF e, of "\<lambda>d. book_id d = x"] by simp
    then have "other \<in> set (getAllBooks ?db')"
      using oe by (auto simp: getAllBooks_def BookRepository_findAll_def)
    moreover have "isbn (setFields updateData now b) = isbn other"
      using h by (simp add: setFields_def)
    ultimately show ?thesis by simp
  qed
  from u g m o show ?thesis by blast
qed

lemma findById_library_1984:
  "BookRepository_findById library ''507f1f77bcf86cd799439012'' = Inr (Some (toBook book1984))"
  by (simp add: BookRepository_findById_def ObjectId_new_1984 library_sel book1984_def)

theorem updateBook_no_isbn_check_witness:
  "distinct (map isbn (getAllBooks library))
   \<and> (\<exists>db'. updateBook library ''507f1f77bcf86cd799439012''
               (noUpdate\<lparr>upd_isbn := Some ''978-0451526342''\<rparr>) 3000
             = (Inr (Some ((toBook book1984)\<lparr>isbn := ''978-0451526342'',
                                            book_updatedAt := 3000\<rparr>)), db')
           \<and> (toBook book1984)\<lparr>isbn := ''978-0451526342'', book_updatedAt := 3000\<rparr>
               \<in> set (getAllBooks db')
           \<and> toBook animalFarm \<in> set (getAllBooks db')
           \<and> isbn (toBook animalFarm) = ''978-0451526342'')"
proof -
  let ?p = "noUpdate\<lparr>upd_isbn := Some ''978-0451526342''\<rparr>"
  have 1: "case upd_authorIds ?p of
             None \<Rightarrow> True
           | Some ids \<Rightarrow> list_all (\<lambda>a. validateAuthorExists library a = Inr True) ids"
    by (simp add: noUpdate_def)
  have s: "setFields ?p 3000 (toBook book1984)
           = (toBook book1984)\<lparr>isbn := ''978-0451526342'', book_updatedAt := 3000\<rparr>"
    by (simp add: setFields_def noUpdate_def)
  have a: "toBook animalFarm \<in> set (getAllBooks library)
           \<and> book_id (toBook animalFarm) \<noteq> book_id (toBook book1984)
           \<and> upd_isbn ?p = Some (isbn (toBook animalFarm))"
    by (simp add: getAllBooks_def BookRepository_findAll_def library_sel toBook_book1984
        toBook_animalFarm)
  have d: "distinct (map isbn (getAllBooks library))"
    by (simp add: getAllBooks_def BookRepository_findAll_def library_sel toBook_book1984
        toBook_animalFarm)
  have i: "isbn (toBook animalFarm) = ''978-0451526342''"
    by (simp add: toBook_animalFarm)
  from updateBook_no_isbn_check[OF findById_library_1984 1, of 3000] a
  have "\<exists>db'. updateBook library ''507f1f77bcf86cd799439012'' ?p 3000
             = (Inr (Some (setFields ?p 3000 (toBook book1984))), db')
           \<and> setFields ?p 3000 (toBook book1984) \<in> set (getAllBooks db')
           \<and> toBook animalFarm \<in> set (getAllBooks db')"
    by blast
  with d i s show ?thesis by simp
qed

section \<open>The code's string tests and the notions of the specification\<close>

lemma startsWith_iff: "startsWith s q \<longleftrightarrow> (\<exists>post. s = q @ post)"
  by (induction s q rule: startsWith.induct) auto

lemma str_includes_iff: "str_includes s q \<longleftrightarrow> (\<exists>pre post. s = pre @ q @ post)"
proof (induction s)
  case Nil
  then show ?case by auto
next
  case (Cons x s)
  show ?case
  proof
    assume "str_includes (x # s) q"
    then consider "startsWith (x # s) q" | "str_includes s q" by auto
    then show "\<exists>pre post. x # s = pre @ q @ post"
    proof cases
      case 1
      then obtain post where "x # s = q @ post" by (auto simp: startsWith_iff)
      then have "x # s = [] @ q @ post" by simp
      then show ?thesis by blast
    next
      case 2
      then obtain pre post where "s = pre @ q @ post" using Cons.IH by blast
      then have "x # s = (x # pre) @ q @ post" by simp
      then show ?thesis by blast
    qed
  next
    assume "\<exists>pre post. x # s = pre @ q @ post"
    then obtain pre post where e: "x # s = pre @ q @ post" by blast
    show "str_includes (x # s) q"
    proof (cases pre)
      case Nil
      then have "startsWith (x # s) q" using e by (auto simp: startsWith_iff)
      then show ?thesis by simp
    next
      case (Cons y pre')
      then have "s = pre' @ q @ post" using e by simp
      then have "str_includes s q" using Cons.IH by blast
      then show ?thesis by simp
    qed
  qed
qed

lemma ci_equal_iff: "ci_equal s t \<longleftrightarrow> toLowerCase s = toLowerCase t"
  unfolding ci_equal_def toLowerCase_def
proof (induction s arbitrary: t)
  case Nil
  then show ?case by auto
next
  case (Cons x s)
  then show ?case by (cases t) auto
qed

lemma ci_substring_iff:
  "ci_substring q s \<longleftrightarrow> str_includes (toLowerCase s) (toLowerCase q)"
proof
  assume "ci_substring q s"
  then obtain pre mid post where "s = pre @ mid @ post" "ci_equal mid q"
    by (auto simp: ci_substring_def)
  then have "toLowerCase s = toLowerCase pre @ toLowerCase q @ toLowerCase post"
    by (simp add: ci_equal_iff toLowerCase_def)
  then show "str_includes (toLowerCase s) (toLowerCase q)"
    unfolding str_includes_iff by blast
next
  assume "str_includes (toLowerCase s) (toLowerCase q)"
  then obtain pre' post' where "map toLowerChar s = pre' @ map toLowerChar q @ post'"
    unfolding str_includes_iff toLowerCase_def by blast
  then obtain pre r where 1: "s = pre @ r" and "map toLowerChar q @ post' = map toLowerChar r"
    unfolding map_eq_append_conv by blast
  then have "map toLowerChar r = map toLowerChar q @ post'" by simp
  then obtain mid post where 2: "r = mid @ post" and 3: "map toLowerChar q = map toLowerChar mid"
    unfolding map_eq_append_conv by blast
  from 3 have "ci_equal mid q" by (simp add: ci_equal_iff toLowerCase_def)
  with 1 2 show "ci_substring q s" by (auto simp: ci_substring_def)
qed

lemma str_includes_empty: "str_includes s []"
  by (cases s) simp_all

lemma ci_substring_of_empty: "ci_substring q [] \<Longrightarrow> q = []"
  by (auto simp: ci_substring_def ci_equal_def)

lemma ci_equal_length: "ci_equal s t \<Longrightarrow> length s = length t"
  by (auto simp: ci_equal_def dest: list_all2_lengthD)

section \<open>Books by genre\<close>

text \<open>
  Claim C9.  \<open>getBooksByGenre\<close> returns exactly the stored books whose genre equals the
  given one up to case, in stored order.  A book whose genre contains the given one (up to
  case) with something before or after it is not returned.
\<close>

theorem getBooksByGenre_exact:
  "getBooksByGenre db g = filter (\<lambda>b. ci_equal (genre b) g) (getAllBooks db)
   \<and> (\<forall>b pre mid post.
         b \<in> set (getAllBooks db) \<and> genre b = pre @ mid @ post \<and> ci_equal mid g
           \<and> (pre \<noteq> [] \<or> post \<noteq> [])
         \<longrightarrow> b \<notin> set (getBooksByGenre db g))"
proof -
  have 1: "getBooksByGenre db g = filter (\<lambda>b. ci_equal (genre b) g) (getAllBooks db)"
    by (simp add: getBooksByGenre_def getAllBooks_def ci_equal_iff)
  have 2: "b \<notin> set (getBooksByGenre db g)"
    if h: "genre b = pre @ mid @ post \<and> ci_equal mid g \<and> (pre \<noteq> [] \<or> post \<noteq> [])"
    for b pre mid post
  proof
    assume "b \<in> set (getBooksByGenre db g)"
    then have "ci_equal (genre b) g" by (simp add: 1)
    then have "length (genre b) = length g" by (rule ci_equal_length)
    moreover have "length mid = length g" using h by (simp add: ci_equal_length)
    ultimately show False using h by auto
  qed
  from 1 2 show ?thesis by blast
qed

lemmas lower_simps = toLowerCase_def toLowerChar_def char_of_def bit_Suc_0_iff

lemma toLowerCase_dystopian:
  "toLowerCase ''Dystopian Fiction'' = ''dystopian fiction''"
  "toLowerCase ''DYSTOPIAN fiction'' = ''dystopian fiction''"
  "toLowerCase ''Satire'' = ''satire''"
  "toLowerCase ''Fiction'' = ''fiction''"
  by (simp_all add: lower_simps)

theorem getBooksByGenre_exact_witness:
  "getBooksByGenre library ''DYSTOPIAN fiction'' = [toBook book1984]
   \<and> toBook book1984 \<in> set (getAllBooks library)
   \<and> genre (toBook book1984) = ''Dystopian '' @ ''Fiction'' @ []
   \<and> ci_equal ''Fiction'' ''Fiction''
   \<and> toBook book1984 \<notin> set (getBooksByGenre library ''Fiction'')"
proof -
  have m: "toBook book1984 \<in> set (getAllBooks library)"
    by (simp add: getAllBooks_def BookRepository_findAll_def library_sel)
  have g: "genre (toBook book1984) = ''Dystopian '' @ ''Fiction'' @ []"
    by (simp add: toBook_book1984)
  have c: "ci_equal ''Fiction'' ''Fiction''"
    by (simp add: ci_equal_iff)
  have e: "getBooksByGenre library ''DYSTOPIAN fiction'' = [toBook book1984]"
    by (simp add: getBooksByGenre_def BookRepository_findAll_def library_sel toBook_book1984
        toBook_animalFarm toLowerCase_dystopian)
  have "toBook book1984 \<notin> set (getBooksByGenre library ''Fiction'')"
    using getBooksByGenre_exact[of library "''Fiction''"] m g c by blast
  with m g c e show ?thesis by simp
qed

section \<open>Searching authors\<close>

text \<open>
  Claim C8.  \<open>searchAuthors\<close> returns exactly the stored authors, in stored order, for
  which the query occurs, up to case, in the first name, the last name, the full name, a
  present biography or a present nationality.  An absent biography or nationality is not
  compared.
\<close>

theorem searchAuthors_exact:
  "searchAuthors db q =
     map toAuthor
       (filter (\<lambda>d. ci_substring q (firstName d) \<or> ci_substring q (lastName d)
                   \<or> ci_substring q (fullName d)
                   \<or> (\<exists>b. biography d = Some b \<and> ci_substring q b)
                   \<or> (\<exists>n. nationality d = Some n \<and> ci_substring q n))
          (authors db))"
proof -
  have opt: "(case v of None \<Rightarrow> False
              | Some b \<Rightarrow> truthy b \<and> str_includes (toLowerCase b) (toLowerCase q))
             \<or> ci_substring q (firstName a)
             \<longleftrightarrow> (\<exists>b. v = Some b \<and> ci_substring q b) \<or> ci_substring q (firstName a)"
    for v and a :: Author
  proof (cases v)
    case None
    then show ?thesis by simp
  next
    case (Some b)
    show ?thesis
    proof (cases "b = []")
      case True
      have "ci_substring q (firstName a)" if "ci_substring q []"
        using ci_substring_of_empty[OF that]
        by (simp add: ci_substring_iff toLowerCase_def str_includes_empty)
      then show ?thesis using Some True by (auto simp: truthy_def)
    next
      case False
      then show ?thesis using Some by (simp add: truthy_def ci_substring_iff)
    qed
  qed
  have "searchAuthors_match q a \<longleftrightarrow>
          (ci_substring q (firstName a) \<or> ci_substring q (lastName a)
           \<or> ci_substring q (fullName a)
           \<or> (\<exists>b. biography a = Some b \<and> ci_substring q b)
           \<or> (\<exists>n. nationality a = Some n \<and> ci_substring q n))" for a
    using opt[of "biography a" a] opt[of "nationality a" a]
    unfolding searchAuthors_match_def ci_substring_iff[symmetric] by blast
  then have "searchAuthors_match q (toAuthor d) \<longleftrightarrow>
          (ci_substring q (firstName d) \<or> ci_substring q (lastName d)
           \<or> ci_substring q (fullName d)
           \<or> (\<exists>b. biography d = Some b \<and> ci_substring q b)
           \<or> (\<exists>n. nationality d = Some n \<and> ci_substring q n))" for d
    by (simp add: toAuthor_def)
  then show ?thesis
    by (simp add: searchAuthors_def AuthorRepository_findAll_def filter_map comp_def
        cong: filter_cong)
qed

text \<open>
  In a store with two authors, a query in mixed case finds the one author whose name
  has it, and a query that occurs only in a biography finds the one author who has that
  biography; the other author has none.
\<close>

theorem searchAuthors_exact_witness:
  "authors shelf = [orwell, huxley]
   \<and> searchAuthors shelf ''orWELL'' = [toAuthor orwell]
   \<and> map toAuthor
        (filter (\<lambda>d. ci_substring ''orWELL'' (firstName d) \<or> ci_substring ''orWELL'' (lastName d)
                    \<or> ci_substring ''orWELL'' (fullName d)
                    \<or> (\<exists>b. biography d = Some b \<and> ci_substring ''orWELL'' b)
                    \<or> (\<exists>n. nationality d = Some n \<and> ci_substring ''orWELL'' n))
           [orwell, huxley]) = [toAuthor orwell]
   \<and> searchAuthors shelf ''PHILOSOPHER'' = [toAuthor huxley]
   \<and> map toAuthor
        (filter (\<lambda>d. ci_substring ''PHILOSOPHER'' (firstName d)
                    \<or> ci_substring ''PHILOSOPHER'' (lastName d)
                    \<or> ci_substring ''PHILOSOPHER'' (fullName d)
                    \<or> (\<exists>b. biography d = Some b \<and> ci_substring ''PHILOSOPHER'' b)
                    \<or> (\<exists>n. nationality d = Some n \<and> ci_substring ''PHILOSOPHER'' n))
           [orwell, huxley]) = [toAuthor huxley]"
proof -
  have 1: "searchAuthors shelf ''orWELL'' = [toAuthor orwell]"
    by (simp add: searchAuthors_def AuthorRepository_findAll_def shelf_sel
        searchAuthors_match_def toAuthor_orwell toAuthor_huxley truthy_def lower_simps)
  have 2: "searchAuthors shelf ''PHILOSOPHER'' = [toAuthor huxley]"
    by (simp add: searchAuthors_def AuthorRepository_findAll_def shelf_sel
        searchAuthors_match_def toAuthor_orwell toAuthor_huxley truthy_def lower_simps)
  show ?thesis
    using searchAuthors_exact[of shelf "''orWELL''"]
      searchAuthors_exact[of shelf "''PHILOSOPHER''"] 1 2
    by (simp add: shelf_sel)
qed

lemma searchAuthors_example: "searchAuthors bookstore ''BRIT'' = [toAuthor orwell]"
  by (simp add: searchAuthors_def AuthorRepository_findAll_def bookstore_sel
      searchAuthors_match_def toAuthor_orwell truthy_def lower_simps)

section \<open>Author identifiers of stored books are well formed\<close>

lemma validateAuthorIds_wellformed:
  "validateAuthorIds db ids = Inr u \<Longrightarrow> toObjectIds ids \<noteq> None"
proof (induction ids)
  case Nil
  then show ?case by simp
next
  case (Cons i ids)
  then show ?case
    by (auto simp: validateAuthorExists_cases split: option.splits if_splits)
qed

lemma list_all_updateFirst:
  "list_all P xs \<Longrightarrow> (\<And>x. P x \<Longrightarrow> P (f x)) \<Longrightarrow> list_all P (updateFirst Q f xs)"
  by (induction xs) auto

lemma list_all_deleteFirst: "list_all P xs \<Longrightarrow> list_all P (deleteFirst Q xs)"
  by (induction xs) auto

lemma authorIds_setFields:
  "authorIds (setFields p now d) = (case upd_authorIds p of None \<Rightarrow> authorIds d | Some v \<Rightarrow> v)"
  by (simp add: setFields_def)

lemma BookRepository_update_wellformed:
  assumes "authorIdsWellFormed db"
    and "case upd_authorIds p of None \<Rightarrow> True | Some ids \<Rightarrow> toObjectIds ids \<noteq> None"
  shows "authorIdsWellFormed (snd (BookRepository_update db i p now))"
proof -
  have "toObjectIds (authorIds (setFields p now d)) \<noteq> None"
    if "toObjectIds (authorIds d) \<noteq> None" for d :: BookDoc
    using that assms(2) by (simp add: authorIds_setFields split: option.splits)
  then have "list_all (\<lambda>d. toObjectIds (authorIds d) \<noteq> None)
               (updateFirst Q (setFields p now) (books db))" for Q
    using assms(1) list_all_updateFirst[of "\<lambda>d. toObjectIds (authorIds d) \<noteq> None" "books db"]
    by (simp add: authorIdsWellFormed_def)
  then show ?thesis
    using assms(1)
    by (simp add: BookRepository_update_def authorIdsWellFormed_def split: option.splits)
qed

lemma createBook_wellformed:
  assumes "authorIdsWellFormed db"
  shows "authorIdsWellFormed (snd (createBook db bookData oid now))"
proof (cases "validateAuthorIds db (authorIds bookData)")
  case (Inl c)
  then show ?thesis using assms by (simp add: createBook_def)
next
  case (Inr u)
  then have "toObjectIds (authorIds bookData) \<noteq> None" by (rule validateAuthorIds_wellformed)
  then show ?thesis
    using assms Inr
    by (auto simp: createBook_def BookRepository_create_def authorIdsWellFormed_def Let_def
        split: option.splits)
qed

lemma updateBook_wellformed:
  assumes "authorIdsWellFormed db"
  shows "authorIdsWellFormed (snd (updateBook db i updateData now))"
proof (cases "case upd_authorIds updateData of None \<Rightarrow> Inr ()
              | Some ids \<Rightarrow> validateAuthorIds db ids")
  case (Inl c)
  then show ?thesis using assms by (simp add: updateBook_def)
next
  case (Inr u)
  then have "case upd_authorIds updateData of None \<Rightarrow> True
             | Some ids \<Rightarrow> toObjectIds ids \<noteq> None"
    by (auto split: option.splits dest: validateAuthorIds_wellformed)
  from BookRepository_update_wellformed[OF assms this] Inr
  show ?thesis by (simp add: updateBook_def)
qed

lemma updateStock_wellformed:
  assumes "authorIdsWellFormed db"
  shows "authorIdsWellFormed (snd (updateStock db i quantity now))"
proof -
  have "authorIdsWellFormed (snd (BookRepository_update db i
          \<lparr> upd_title = None, upd_authorIds = None, upd_isbn = None, upd_price = None,
            upd_stock = Some n, upd_genre = None, upd_description = None,
            upd_publishedDate = None \<rparr> now))" for n
    by (rule BookRepository_update_wellformed[OF assms]) simp
  then show ?thesis
    using assms by (simp add: updateStock_def Let_def split: sum.splits option.splits)
qed

lemma deleteBook_wellformed:
  assumes "authorIdsWellFormed db"
  shows "authorIdsWellFormed (snd (deleteBook db i))"
  using assms
  by (simp add: deleteBook_def BookRepository_delete_def authorIdsWellFormed_def
      list_all_deleteFirst split: option.splits)

text \<open>
  Under the invariant every stored book meets, for every query, the condition under which
  the search below is characterised.
\<close>

lemma wellformed_resolvable:
  assumes "authorIdsWellFormed db"
  shows "\<forall>b \<in> set (books db).
           ci_substring q (title b) \<or> ci_substring q (genre b)
           \<or> toObjectIds (authorIds b) \<noteq> None"
  using assms by (auto simp: authorIdsWellFormed_def list_all_iff)

section \<open>Searching books\<close>

lemma titleOrGenreMatch_iff:
  "titleOrGenreMatch q b \<longleftrightarrow> ci_substring q (title b) \<or> ci_substring q (genre b)"
  by (simp add: titleOrGenreMatch_def ci_substring_iff)

lemma authorMatch_iff:
  "authorMatch q as \<longleftrightarrow>
     (\<exists>a \<in> set as. ci_substring q (firstName a) \<or> ci_substring q (lastName a)
                    \<or> ci_substring q (fullName a))"
  by (simp add: authorMatch_def list_ex_iff ci_substring_iff)

lemma getAuthorsByIds_wellformed:
  "toObjectIds ids \<noteq> None \<Longrightarrow> \<exists>as. getAuthorsByIds db ids = Inr as"
  by (auto simp: getAuthorsByIds_def AuthorRepository_findByIds_def)

text \<open>
  The loop appends to the accumulator the books that match, provided the author
  identifiers of every book that has to be resolved are well formed.
\<close>

lemma searchBooks_loop_filter:
  assumes "\<forall>b \<in> set bs. titleOrGenreMatch q b \<or> toObjectIds (authorIds b) \<noteq> None"
  shows "searchBooks_loop db q bs acc =
           Inr (acc @ filter (\<lambda>b. titleOrGenreMatch q b
                                \<or> (\<exists>as. getAuthorsByIds db (authorIds b) = Inr as
                                         \<and> authorMatch q as)) bs)"
  using assms
proof (induction bs arbitrary: acc)
  case Nil
  then show ?case by simp
next
  case (Cons b bs)
  then have IH: "\<And>acc. searchBooks_loop db q bs acc =
           Inr (acc @ filter (\<lambda>b. titleOrGenreMatch q b
                                \<or> (\<exists>as. getAuthorsByIds db (authorIds b) = Inr as
                                         \<and> authorMatch q as)) bs)"
    by simp
  show ?case
  proof (cases "titleOrGenreMatch q b")
    case True
    then show ?thesis by (simp add: IH)
  next
    case False
    then have "toObjectIds (authorIds b) \<noteq> None" using Cons.prems by simp
    then obtain as where "getAuthorsByIds db (authorIds b) = Inr as"
      using getAuthorsByIds_wellformed by blast
    then show ?thesis using False by (simp add: IH)
  qed
qed

text \<open>
  The identifiers that \<open>toObjectIds\<close> yields are those of the strings, and
  \<open>getAuthorsByIds\<close> returns the stored authors that have one of them.
\<close>

lemma toObjectIds_set:
  "toObjectIds ids = Some xs \<Longrightarrow> x \<in> set xs \<longleftrightarrow> (\<exists>i \<in> set ids. ObjectId_new i = Some x)"
proof (induction ids arbitrary: xs)
  case Nil
  then show ?case by simp
next
  case (Cons i ids)
  then show ?case by (auto split: option.splits)
qed

lemma getAuthorsByIds_resolves:
  assumes "toObjectIds ids = Some xs"
  shows "getAuthorsByIds db ids =
           Inr (map toAuthor
                  (filter (\<lambda>d. \<exists>i \<in> set ids. ObjectId_new i = Some (author_id d)) (authors db)))"
proof -
  have "(author_id d \<in> set xs) = (\<exists>i \<in> set ids. ObjectId_new i = Some (author_id d))" for d :: AuthorDoc
    using toObjectIds_set[OF assms] by simp
  then show ?thesis
    using assms by (simp add: getAuthorsByIds_def AuthorRepository_findByIds_def)
qed

lemma authorMatch_toAuthor:
  "authorMatch q (map toAuthor ds) \<longleftrightarrow>
     (\<exists>d \<in> set ds. ci_substring q (firstName d) \<or> ci_substring q (lastName d)
                    \<or> ci_substring q (fullName d))"
  by (simp add: authorMatch_iff toAuthor_def)

text \<open>
  Claim C7.  Provided every stored book whose title and genre do not contain the query
  has well-formed author identifiers (the service stores no others), \<open>searchBooks\<close>
  returns exactly the stored books, in stored order, for which the query occurs, up to
  case, in the title or the genre, or in the first, last or full name of a stored author
  whose identifier is one of the book's author identifiers.  The authors of a book whose
  title or genre matches are not resolved: the hypothesis does not ask anything of the
  author identifiers of such a book.
\<close>

theorem searchBooks_exact:
  assumes "\<forall>b \<in> set (books db).
             ci_substring q (title b) \<or> ci_substring q (genre b)
             \<or> toObjectIds (authorIds b) \<noteq> None"
  shows "searchBooks db q =
           Inr (map toBook
                  (filter (\<lambda>b. ci_substring q (title b) \<or> ci_substring q (genre b)
                             \<or> (\<exists>d \<in> set (authors db).
                                   (\<exists>i \<in> set (authorIds b). ObjectId_new i = Some (author_id d))
                                   \<and> (ci_substring q (firstName d)
                                        \<or> ci_substring q (lastName d)
                                        \<or> ci_substring q (fullName d))))
                     (books db)))"
proof -
  let ?resolved = "\<lambda>b :: BookDoc. \<exists>d \<in> set (authors db).
                     (\<exists>i \<in> set (authorIds b). ObjectId_new i = Some (author_id d))
                     \<and> (ci_substring q (firstName d) \<or> ci_substring q (lastName d)
                          \<or> ci_substring q (fullName d))"
  have h: "\<forall>b \<in> set (BookRepository_findAll db).
             titleOrGenreMatch q b \<or> toObjectIds (authorIds b) \<noteq> None"
    using assms by (auto simp: titleOrGenreMatch_iff BookRepository_findAll_def toBook_def)
  have eq: "(titleOrGenreMatch q (toBook b)
              \<or> (\<exists>as. getAuthorsByIds db (authorIds (toBook b)) = Inr as \<and> authorMatch q as))
            \<longleftrightarrow> (ci_substring q (title b) \<or> ci_substring q (genre b) \<or> ?resolved b)"
    if b: "b \<in> set (books db)" for b
  proof (cases "ci_substring q (title b) \<or> ci_substring q (genre b)")
    case True
    then show ?thesis by (auto simp: titleOrGenreMatch_iff toBook_def)
  next
    case False
    then have "toObjectIds (authorIds b) \<noteq> None" using assms b by blast
    then obtain xs where xs: "toObjectIds (authorIds b) = Some xs" by blast
    have a: "authorIds (toBook b) = authorIds b" by (simp add: toBook_def)
    have "(\<exists>as. getAuthorsByIds db (authorIds (toBook b)) = Inr as \<and> authorMatch q as)
          \<longleftrightarrow> ?resolved b"
      unfolding a getAuthorsByIds_resolves[OF xs] by (auto simp: authorMatch_toAuthor)
    then show ?thesis using False by (simp add: titleOrGenreMatch_iff toBook_def)
  qed
  have "searchBooks db q =
          Inr (filter (\<lambda>b. titleOrGenreMatch q b
                          \<or> (\<exists>as. getAuthorsByIds db (authorIds b) = Inr as \<and> authorMatch q as))
                 (map toBook (books db)))"
    using searchBooks_loop_filter[OF h, of db "[]"]
    by (simp add: searchBooks_def BookRepository_findAll_def)
  also have "\<dots> = Inr (map toBook
                  (filter (\<lambda>b. ci_substring q (title b) \<or> ci_substring q (genre b)
                             \<or> ?resolved b) (books db)))"
    using eq by (simp add: filter_map comp_def cong: filter_cong)
  finally show ?thesis .
qed

lemma author_ids: "author_id orwell = 0x507f1f77bcf86cd799439011"
  "author_id huxley = 0x507f1f77bcf86cd799439031"
  by (simp_all add: orwell_def huxley_def)

lemma getAuthorsByIds_shelf:
  "getAuthorsByIds shelf [''507f1f77bcf86cd799439011''] = Inr [toAuthor orwell]"
  "getAuthorsByIds shelf [''507F1F77BCF86CD799439031''] = Inr [toAuthor huxley]"
  by (simp_all add: getAuthorsByIds_def AuthorRepository_findByIds_def ObjectId_new_orwell
      ObjectId_new_huxley shelf_sel author_ids)

lemmas searchBooks_eval = searchBooks_def BookRepository_findAll_def shelf_sel toBook_book1984
  toBook_animalFarm toBook_braveNewWorld titleOrGenreMatch_def getAuthorsByIds_shelf
  authorMatch_def toAuthor_orwell toAuthor_huxley lower_simps

lemma searchBooks_shelf:
  "searchBooks shelf ''ORWELL'' = Inr [toBook book1984, toBook animalFarm]"
  "searchBooks shelf ''huxley'' = Inr [toBook braveNewWorld]"
  "searchBooks shelf ''farm'' = Inr [toBook animalFarm]"
  by (simp_all add: searchBooks_eval)

text \<open>
  In a store with two authors and three books, a query for the name of one author finds
  that author's books and not the other's, a book is found through an author identifier
  written in capital digits, and a book is found by its title.
\<close>

theorem searchBooks_exact_witness:
  "authors shelf = [orwell, huxley] \<and> books shelf = [book1984, braveNewWorld, animalFarm]
   \<and> searchBooks shelf ''ORWELL'' = Inr [toBook book1984, toBook animalFarm]
   \<and> map toBook
        (filter (\<lambda>b. ci_substring ''ORWELL'' (title b) \<or> ci_substring ''ORWELL'' (genre b)
                   \<or> (\<exists>d \<in> set [orwell, huxley].
                         (\<exists>i \<in> set (authorIds b). ObjectId_new i = Some (author_id d))
                         \<and> (ci_substring ''ORWELL'' (firstName d)
                              \<or> ci_substring ''ORWELL'' (lastName d)
                              \<or> ci_substring ''ORWELL'' (fullName d))))
           [book1984, braveNewWorld, animalFarm])
      = [toBook book1984, toBook animalFarm]
   \<and> searchBooks shelf ''huxley'' = Inr [toBook braveNewWorld]
   \<and> map toBook
        (filter (\<lambda>b. ci_substring ''huxley'' (title b) \<or> ci_substring ''huxley'' (genre b)
                   \<or> (\<exists>d \<in> set [orwell, huxley].
                         (\<exists>i \<in> set (authorIds b). ObjectId_new i = Some (author_id d))
                         \<and> (ci_substring ''huxley'' (firstName d)
                              \<or> ci_substring ''huxley'' (lastName d)
                              \<or> ci_substring ''huxley'' (fullName d))))
           [book1984, braveNewWorld, animalFarm])
      = [toBook braveNewWorld]
   \<and> searchBooks shelf ''farm'' = Inr [toBook animalFarm]
   \<and> map toBook
        (filter (\<lambda>b. ci_substring ''farm'' (title b) \<or> ci_substring ''farm'' (genre b)
                   \<or> (\<exists>d \<in> set [orwell, huxley].
                         (\<exists>i \<in> set (authorIds b). ObjectId_new i = Some (author_id d))
                         \<and> (ci_substring ''farm'' (firstName d)
                              \<or> ci_substring ''farm'' (lastName d)
                              \<or> ci_substring ''farm'' (fullName d))))
           [book1984, braveNewWorld, animalFarm])
      = [toBook animalFarm]"
proof -
  have h: "\<forall>b \<in> set (books shelf).
             ci_substring q (title b) \<or> ci_substring q (genre b)
             \<or> toObjectIds (authorIds b) \<noteq> None" for q
    by (simp add: shelf_sel book1984_def braveNewWorld_def animalFarm_def ObjectId_new_orwell
        ObjectId_new_huxley)
  show ?thesis
    using searchBooks_exact[OF h, of "''ORWELL''"] searchBooks_exact[OF h, of "''huxley''"]
      searchBooks_exact[OF h, of "''farm''"] searchBooks_shelf
    by (simp add: shelf_sel del: list.set)
qed

section \<open>Books by author name\<close>

lemma ObjectId_toString_length: "length (ObjectId_toString w) = 24"
  by (simp add: ObjectId_toString_def)

lemma truthy_author_id: "truthy (author_id (toAuthor d))"
proof -
  have "length (author_id (toAuthor d)) = 24"
    by (simp add: toAuthor_def ObjectId_toString_length)
  then show ?thesis by (auto simp: truthy_def)
qed

lemma getAuthorsByName_ids_truthy:
  assumes "getAuthorsByName rx db name = Inr as"
  shows "filter truthy (map author_id as) = map author_id as"
proof -
  from assms obtain ds where "as = map toAuthor ds"
    by (auto simp: getAuthorsByName_def AuthorRepository_findByName_def split: option.splits)
  then show ?thesis by (simp add: truthy_author_id)
qed

text \<open>
  When \<open>getAuthorsByName\<close> yields no author, \<open>getBooksByAuthor\<close> succeeds with the empty
  list.  When it yields the non-empty list \<open>as\<close>, \<open>getBooksByAuthor\<close> returns exactly the
  stored books, in stored order, whose author identifiers have an element in common with
  the identifiers of the authors in \<open>as\<close>.
\<close>

lemma getBooksByAuthor_resolved:
  "(getAuthorsByName rx db name = Inr [] \<longrightarrow> getBooksByAuthor rx db name = Inr [])
   \<and> (\<forall>as. getAuthorsByName rx db name = Inr as \<and> as \<noteq> [] \<longrightarrow>
         getBooksByAuthor rx db name =
           Inr (filter (\<lambda>b. set (authorIds b) \<inter> set (map author_id as) \<noteq> {})
                  (getAllBooks db)))"
proof -
  have 1: "getBooksByAuthor rx db name = Inr []" if "getAuthorsByName rx db name = Inr []"
    using that by (simp add: getBooksByAuthor_def)
  have 2: "getBooksByAuthor rx db name =
           Inr (filter (\<lambda>b. set (authorIds b) \<inter> set (map author_id as) \<noteq> {})
                  (getAllBooks db))"
    if h: "getAuthorsByName rx db name = Inr as \<and> as \<noteq> []" for as
  proof -
    have t: "filter truthy (map author_id as) = map author_id as"
      using h getAuthorsByName_ids_truthy by blast
    have e: "list_ex (\<lambda>authorId. authorId \<in> set (map author_id as)) (authorIds b)
             \<longleftrightarrow> set (authorIds b) \<inter> set (map author_id as) \<noteq> {}" for b :: Book
      by (auto simp: list_ex_iff)
    show ?thesis
      using h by (simp add: getBooksByAuthor_def t e getAllBooks_def Let_def del: set_map)
  qed
  from 1 2 show ?thesis by blast
qed

text \<open>A name that \<open>new RegExp\<close> rejects ends \<open>getBooksByAuthor\<close> with the exception.\<close>

lemma getBooksByAuthor_dies:
  "rx name = None \<Longrightarrow> getBooksByAuthor rx db name = Inl (Die SyntaxError)"
  by (simp add: getBooksByAuthor_def getAuthorsByName_def AuthorRepository_findByName_def)

lemmas regexp_simps = RegExp_i_def syntaxCharacter_def quantifierOf_def lower_simps

lemma getAuthorsByName_library_orwell:
  "getAuthorsByName RegExp_i library ''orwell'' = Inr [toAuthor orwell]"
  by (simp add: getAuthorsByName_def AuthorRepository_findByName_def library_sel regexp_simps
      orwell_def)

lemma getAuthorsByName_library_huxley:
  "getAuthorsByName RegExp_i library ''huxley'' = Inr []"
  by (simp add: getAuthorsByName_def AuthorRepository_findByName_def library_sel regexp_simps
      orwell_def)

lemma getBooksByAuthor_resolved_examples:
  "getBooksByAuthor RegExp_i library ''huxley'' = Inr []"
  "getBooksByAuthor RegExp_i library ''orwell'' = Inr [toBook book1984, toBook animalFarm]"
proof -
  show "getBooksByAuthor RegExp_i library ''huxley'' = Inr []"
    using getBooksByAuthor_resolved[of RegExp_i library "''huxley''"]
      getAuthorsByName_library_huxley by blast
  have "getBooksByAuthor RegExp_i library ''orwell'' =
           Inr (filter (\<lambda>b. set (authorIds b) \<inter> set (map author_id [toAuthor orwell]) \<noteq> {})
                  (getAllBooks library))"
    using getBooksByAuthor_resolved[of RegExp_i library "''orwell''"]
      getAuthorsByName_library_orwell by blast
  then show "getBooksByAuthor RegExp_i library ''orwell''
             = Inr [toBook book1984, toBook animalFarm]"
    by (simp add: getAllBooks_def BookRepository_findAll_def library_sel toBook_book1984
        toBook_animalFarm toAuthor_orwell)
qed

text \<open>
  Claim C6.  The claim is that \<open>getBooksByAuthor\<close>, for every name, returns the empty
  list when no author matches the name and otherwise the books of the authors that
  match.  No author of the library has \<open>c++\<close> in a name.  As a regular expression \<open>c++\<close>
  is a syntax error: \<open>new RegExp\<close> throws inside \<open>findByName\<close>, and both
  \<open>getAuthorsByName\<close> and \<open>getBooksByAuthor\<close> end with that exception instead of
  returning the empty list.
\<close>

theorem getBooksByAuthor_regexp_throws:
  "authors library = [orwell]
   \<and> \<not> ci_substring ''c++'' (firstName orwell)
   \<and> \<not> ci_substring ''c++'' (lastName orwell)
   \<and> \<not> ci_substring ''c++'' (fullName orwell)
   \<and> getAuthorsByName RegExp_i library ''c++'' = Inl (Die SyntaxError)
   \<and> getBooksByAuthor RegExp_i library ''c++'' = Inl (Die SyntaxError)"
  by (simp add: getBooksByAuthor_def getAuthorsByName_def AuthorRepository_findByName_def
      regexp_simps library_sel ci_substring_iff orwell_def)

section \<open>What \<open>createAuthor\<close> does with a name\<close>

text \<open>
  \<open>createAuthor\<close> reports the conflict when the regular expression made of the name
  matches a field of a stored author whose full name equals the name up to case.
\<close>

lemma createAuthor_conflict:
  assumes "rx (fullName authorData) = Some r"
    and "d \<in> set (authors db)"
    and "r (firstName d) \<or> r (lastName d) \<or> r (fullName d)"
    and "ci_equal (fullName d) (fullName authorData)"
  shows "createAuthor rx db authorData oid now =
           (Inl (Fail (''Author with name '' @ [CHR 0x22] @ fullName authorData @
                       [CHR 0x22] @ '' already exists'')), db)"
proof -
  let ?found = "map toAuthor
                  (filter (\<lambda>d. r (firstName d) \<or> r (lastName d) \<or> r (fullName d)) (authors db))"
  have "toAuthor d \<in> set ?found" using assms(2,3) by simp
  moreover have "toLowerCase (fullName (toAuthor d)) = toLowerCase (fullName authorData)"
    using assms(4) by (simp add: ci_equal_iff toAuthor_def)
  ultimately have "find (\<lambda>author. toLowerCase (fullName author) =
                                   toLowerCase (fullName authorData)) ?found \<noteq> None"
    unfolding find_None_iff by blast
  then show ?thesis
    using assms(1) by (auto simp: createAuthor_def AuthorRepository_findByName_def)
qed

text \<open>
  It stores the author when the expression is well formed, no stored author that the
  expression matches has the name, and the identifier is fresh.
\<close>

lemma createAuthor_stores:
  assumes "rx (fullName authorData) = Some r"
    and "\<forall>d \<in> set (authors db).
           (r (firstName d) \<or> r (lastName d) \<or> r (fullName d))
           \<longrightarrow> \<not> ci_equal (fullName d) (fullName authorData)"
    and "\<forall>d \<in> set (authors db). author_id d \<noteq> oid"
  shows "\<exists>d. createAuthor rx db authorData oid now
               = (Inr (toAuthor d), db\<lparr>authors := authors db @ [d]\<rparr>)
            \<and> fullName d = fullName authorData \<and> author_id d = oid"
proof -
  let ?found = "map toAuthor
                  (filter (\<lambda>d. r (firstName d) \<or> r (lastName d) \<or> r (fullName d)) (authors db))"
  have "\<not> (\<exists>a \<in> set ?found. toLowerCase (fullName a) = toLowerCase (fullName authorData))"
    using assms(2) by (auto simp: ci_equal_iff toAuthor_def)
  then have n: "find (\<lambda>author. toLowerCase (fullName author) =
                                toLowerCase (fullName authorData)) ?found = None"
    unfolding find_None_iff by blast
  have fresh: "\<not> list_ex (\<lambda>d. author_id d = oid) (authors db)"
    using assms(3) by (simp add: list_ex_iff)
  have f: "find (\<lambda>d. author_id d = oid) (authors db) = None"
    using assms(3) by (simp add: find_None_iff)
  have "find (\<lambda>d. author_id d = oid) (xs @ [d]) = Some d"
    if "find (\<lambda>d. author_id d = oid) xs = None" "author_id d = oid" for xs and d :: AuthorDoc
    using that by (induction xs) (auto split: if_splits)
  note g = this[OF f]
  let ?d = "\<lparr> firstName = firstName authorData, lastName = lastName authorData,
              fullName = fullName authorData, biography = biography authorData,
              birthDate = birthDate authorData, nationality = nationality authorData,
              website = website authorData, socialLinks = socialLinks authorData,
              profileImageUrl = profileImageUrl authorData,
              author_id = oid, author_createdAt = now, author_updatedAt = now \<rparr>"
  have "createAuthor rx db authorData oid now
          = (Inr (toAuthor ?d), db\<lparr>authors := authors db @ [?d]\<rparr>)"
    using assms(1) n fresh
    by (simp add: createAuthor_def AuthorRepository_findByName_def AuthorRepository_create_def
        Let_def g)
  then show ?thesis by (intro exI[of _ ?d]) simp
qed

section \<open>The fragment of regular expressions on names without syntax characters\<close>

text \<open>
  A pattern without syntax characters is searched for as it is written, up to case.  For
  such names \<open>createAuthor\<close> finds every stored author of the same name.
\<close>

lemma RegExp_i_examples:
  "map_option (\<lambda>r. r ''xAAab'') (RegExp_i ''a+b'') = Some True"
  "map_option (\<lambda>r. r ''a+b'') (RegExp_i ''a+b'') = Some False"
  "map_option (\<lambda>r. r ''Color'') (RegExp_i ''colou?r'') = Some True"
  "map_option (\<lambda>r. r ''ab'') (RegExp_i ''a*?b'') = Some True"
  "RegExp_i ''+a'' = None"
  by (simp_all add: RegExp_i_def syntaxCharacter_def quantifierOf_def lower_simps)

lemma parsePattern_plain:
  "list_all (\<lambda>c. \<not> syntaxCharacter c) p \<Longrightarrow> parsePattern p = Some (map (\<lambda>c. (c, Once)) p)"
  by (induction p rule: parsePattern.induct)
     (auto simp: syntaxCharacter_def quantifierOf_def)

lemma matchHere_plain:
  "matchHere (map (\<lambda>c. (c, Once)) p) s \<longleftrightarrow> (\<exists>mid post. s = mid @ post \<and> ci_equal mid p)"
proof (induction p arbitrary: s)
  case Nil
  then show ?case by (auto simp: ci_equal_def)
next
  case (Cons c p)
  show ?case
  proof (cases s)
    case Nil
    then show ?thesis by (auto simp: ci_equal_def)
  next
    case (Cons x xs)
    have "(\<exists>mid post. x # xs = mid @ post \<and> ci_equal mid (c # p))
          \<longleftrightarrow> toLowerChar x = toLowerChar c \<and> (\<exists>mid post. xs = mid @ post \<and> ci_equal mid p)"
    proof
      assume "\<exists>mid post. x # xs = mid @ post \<and> ci_equal mid (c # p)"
      then obtain mid post where m: "x # xs = mid @ post" "ci_equal mid (c # p)" by blast
      then obtain y mid' where "mid = y # mid'" "toLowerChar y = toLowerChar c" "ci_equal mid' p"
        by (auto simp: ci_equal_def list_all2_Cons2)
      with m show "toLowerChar x = toLowerChar c \<and> (\<exists>mid post. xs = mid @ post \<and> ci_equal mid p)"
        by auto
    next
      assume "toLowerChar x = toLowerChar c \<and> (\<exists>mid post. xs = mid @ post \<and> ci_equal mid p)"
      then obtain mid post where "toLowerChar x = toLowerChar c" "xs = mid @ post" "ci_equal mid p"
        by blast
      then have "x # xs = (x # mid) @ post \<and> ci_equal (x # mid) (c # p)"
        by (simp add: ci_equal_def)
      then show "\<exists>mid post. x # xs = mid @ post \<and> ci_equal mid (c # p)" by blast
    qed
    then show ?thesis using Cons Cons.IH[of xs] by simp
  qed
qed

lemma matchSomewhere_plain:
  "matchSomewhere (map (\<lambda>c. (c, Once)) p) s \<longleftrightarrow> ci_substring p s"
proof (induction s)
  case Nil
  then show ?case by (auto simp: matchHere_plain ci_substring_def)
next
  case (Cons x xs)
  have "ci_substring p (x # xs)
        \<longleftrightarrow> (\<exists>mid post. x # xs = mid @ post \<and> ci_equal mid p) \<or> ci_substring p xs"
  proof
    assume "ci_substring p (x # xs)"
    then obtain pre mid post where e: "x # xs = pre @ mid @ post" "ci_equal mid p"
      by (auto simp: ci_substring_def)
    show "(\<exists>mid post. x # xs = mid @ post \<and> ci_equal mid p) \<or> ci_substring p xs"
    proof (cases pre)
      case Nil
      then show ?thesis using e by auto
    next
      case (Cons y pre')
      then have "xs = pre' @ mid @ post" using e by simp
      then show ?thesis using e(2) by (auto simp: ci_substring_def)
    qed
  next
    assume "(\<exists>mid post. x # xs = mid @ post \<and> ci_equal mid p) \<or> ci_substring p xs"
    then show "ci_substring p (x # xs)"
    proof
      assume "\<exists>mid post. x # xs = mid @ post \<and> ci_equal mid p"
      then obtain mid post where "x # xs = [] @ mid @ post" "ci_equal mid p" by auto
      then show ?thesis unfolding ci_substring_def by blast
    next
      assume "ci_substring p xs"
      then obtain pre mid post where "xs = pre @ mid @ post" "ci_equal mid p"
        by (auto simp: ci_substring_def)
      then have "x # xs = (x # pre) @ mid @ post" "ci_equal mid p" by simp_all
      then show ?thesis unfolding ci_substring_def by blast
    qed
  qed
  then show ?case using Cons.IH by (simp add: matchHere_plain)
qed

lemma RegExp_i_plain:
  "list_all (\<lambda>c. \<not> syntaxCharacter c) p \<Longrightarrow> RegExp_i p = Some (ci_substring p)"
  by (auto simp: RegExp_i_def parsePattern_plain matchSomewhere_plain)

lemma ci_equal_substring: "ci_equal s q \<Longrightarrow> ci_substring q s"
proof -
  assume "ci_equal s q"
  then have "s = [] @ s @ [] \<and> ci_equal s q" by simp
  then show ?thesis unfolding ci_substring_def by blast
qed

lemma createAuthor_plain_name_conflict:
  assumes "list_all (\<lambda>c. \<not> syntaxCharacter c) (fullName authorData)"
    and "d \<in> set (authors db)"
    and "ci_equal (fullName d) (fullName authorData)"
  shows "createAuthor RegExp_i db authorData oid now =
           (Inl (Fail (''Author with name '' @ [CHR 0x22] @ fullName authorData @
                       [CHR 0x22] @ '' already exists'')), db)"
proof -
  have r: "RegExp_i (fullName authorData) = Some (ci_substring (fullName authorData))"
    using assms(1) by (rule RegExp_i_plain)
  have "ci_substring (fullName authorData) (fullName d)"
    using assms(3) by (rule ci_equal_substring)
  then have m: "ci_substring (fullName authorData) (firstName d)
                \<or> ci_substring (fullName authorData) (lastName d)
                \<or> ci_substring (fullName authorData) (fullName d)" by simp
  show ?thesis
    by (rule createAuthor_conflict[where r = "ci_substring (fullName authorData)" and d = d])
       (fact r assms(2) m assms(3))+
qed

lemma createAuthor_plain_name_stores:
  assumes "list_all (\<lambda>c. \<not> syntaxCharacter c) (fullName authorData)"
    and "\<forall>d \<in> set (authors db). \<not> ci_equal (fullName d) (fullName authorData)"
    and "\<forall>d \<in> set (authors db). author_id d \<noteq> oid"
  shows "\<exists>d. createAuthor RegExp_i db authorData oid now
               = (Inr (toAuthor d), db\<lparr>authors := authors db @ [d]\<rparr>)
            \<and> fullName d = fullName authorData \<and> author_id d = oid"
proof -
  have r: "RegExp_i (fullName authorData) = Some (ci_substring (fullName authorData))"
    using assms(1) by (rule RegExp_i_plain)
  have n: "\<forall>d \<in> set (authors db).
             (ci_substring (fullName authorData) (firstName d)
              \<or> ci_substring (fullName authorData) (lastName d)
              \<or> ci_substring (fullName authorData) (fullName d))
             \<longrightarrow> \<not> ci_equal (fullName d) (fullName authorData)"
    using assms(2) by blast
  show ?thesis
    by (rule createAuthor_stores[where r = "ci_substring (fullName authorData)"])
       (fact r n assms(3))+
qed

section \<open>Creating an author\<close>

text \<open>
  Claim C5.  The claim is that \<open>createAuthor\<close> reports a conflict whenever the full name
  of the request equals, up to case, the full name of a stored author, and stores the
  author otherwise.  \<open>createAuthor\<close> looks for the duplicate among the authors that
  \<open>findByName\<close> returns, and \<open>findByName\<close> reads the name as a regular expression.  The
  pattern \<open>A+ Tutor\<close> does not match the name \<open>A+ Tutor\<close>, so a second author of that
  name is stored; the pattern \<open>C++ Dev\<close> is a syntax error, so an author of that name is
  never stored although no stored author has it.  (For a name without syntax characters
  the check does what the claim says, as shown above.)
\<close>

theorem createAuthor_regexp_name:
  "fullName aPlusTutor = ''A+ Tutor''
   \<and> createAuthor RegExp_i tutors (newAuthor ''A+'' ''Tutor'' ''A+ Tutor'')
        0x507f1f77bcf86cd799439022 3000
      = (Inr \<lparr> firstName = ''A+'', lastName = ''Tutor'', fullName = ''A+ Tutor'',
               biography = None, birthDate = None, nationality = None, website = None,
               socialLinks = None, profileImageUrl = None,
               author_id = ''507f1f77bcf86cd799439022'',
               author_createdAt = 3000, author_updatedAt = 3000 \<rparr>,
         tutors\<lparr>authors :=
           [aPlusTutor,
            \<lparr> firstName = ''A+'', lastName = ''Tutor'', fullName = ''A+ Tutor'',
              biography = None, birthDate = None, nationality = None, website = None,
              socialLinks = None, profileImageUrl = None,
              author_id = 0x507f1f77bcf86cd799439022,
              author_createdAt = 3000, author_updatedAt = 3000 \<rparr>]\<rparr>)
   \<and> createAuthor RegExp_i tutors (newAuthor ''C++'' ''Dev'' ''C++ Dev'')
        0x507f1f77bcf86cd799439022 3000
      = (Inl (Die SyntaxError), tutors)"
proof -
  have s: "ObjectId_toString 0x507f1f77bcf86cd799439022 = ''507f1f77bcf86cd799439022''"
    by (simp add: ObjectId_toString_def upt_conv_Cons)
  have t: "authors tutors = [aPlusTutor]" by (simp add: tutors_def)
  have f: "AuthorRepository_findByName RegExp_i tutors ''A+ Tutor'' = Inr []"
    by (simp add: AuthorRepository_findByName_def t regexp_simps aPlusTutor_def)
  have g: "AuthorRepository_findByName RegExp_i tutors ''C++ Dev'' = Inl (Die SyntaxError)"
    by (simp add: AuthorRepository_findByName_def regexp_simps)
  have a: "fullName aPlusTutor = ''A+ Tutor''" by (simp add: aPlusTutor_def)
  have b: "createAuthor RegExp_i tutors (newAuthor ''A+'' ''Tutor'' ''A+ Tutor'')
        0x507f1f77bcf86cd799439022 3000
      = (Inr \<lparr> firstName = ''A+'', lastName = ''Tutor'', fullName = ''A+ Tutor'',
               biography = None, birthDate = None, nationality = None, website = None,
               socialLinks = None, profileImageUrl = None,
               author_id = ''507f1f77bcf86cd799439022'',
               author_createdAt = 3000, author_updatedAt = 3000 \<rparr>,
         tutors\<lparr>authors :=
           [aPlusTutor,
            \<lparr> firstName = ''A+'', lastName = ''Tutor'', fullName = ''A+ Tutor'',
              biography = None, birthDate = None, nationality = None, website = None,
              socialLinks = None, profileImageUrl = None,
              author_id = 0x507f1f77bcf86cd799439022,
              author_createdAt = 3000, author_updatedAt = 3000 \<rparr>]\<rparr>)"
    by (simp add: createAuthor_def newAuthor_def f AuthorRepository_create_def t Let_def)
       (simp add: aPlusTutor_def toAuthor_def s)
  have c: "createAuthor RegExp_i tutors (newAuthor ''C++'' ''Dev'' ''C++ Dev'')
        0x507f1f77bcf86cd799439022 3000 = (Inl (Die SyntaxError), tutors)"
    by (simp add: createAuthor_def newAuthor_def g)
  from a b c show ?thesis by simp
qed


end
